theory Spec2Isabelle
  imports Main
begin

section \<open>The rucio copytool of the pilot: a shallow embedding of \<^verbatim>\<open>pilot/copytool/rucio.py\<close>\<close>

text \<open>
  The module stages files in and out of a worker node by running the \<^verbatim>\<open>rucio\<close> client
  and turns the outcome into a per-file status. The embedding follows the source function
  by function. Python objects that the code mutates in place are passed and returned
  explicitly; the collaborators the module imports (\<^verbatim>\<open>execute\<close>,
  \<^verbatim>\<open>verify_catalog_checksum\<close>, the file system, the \<^verbatim>\<open>ErrorCodes\<close> table) are
  parameters of the model; every \<^verbatim>\<open>raise\<close> is a value of the type \<open>exn\<close>.
\<close>

subsection \<open>Strings\<close>

text \<open>
  Strings are lists of 8-bit characters. \<^verbatim>\<open>output.split('\n')\<close> cuts at every line feed
  and always returns at least one (possibly empty) piece.
\<close>

fun str_split :: "string \<Rightarrow> string list" where
  "str_split [] = [[]]"
| "str_split (c # cs) =
     (if c = CHR 0x0A then [] # str_split cs
      else (case str_split cs of
              [] \<Rightarrow> [[c]]
            | l # ls \<Rightarrow> (c # l) # ls))"

definition startswith :: "string \<Rightarrow> string \<Rightarrow> bool" where
  "startswith s p = (take (length p) s = p)"

text \<open>\<^verbatim>\<open>sub in s\<close>: the substring test of Python.\<close>

fun str_in :: "string \<Rightarrow> string \<Rightarrow> bool" where
  "str_in sub [] = (sub = [])"
| "str_in sub (c # cs) = (startswith (c # cs) sub \<or> str_in sub cs)"

text \<open>\<^verbatim>\<open>" ".join(cmd)\<close> on a list of strings.\<close>

fun str_join :: "string list \<Rightarrow> string" where
  "str_join [] = []"
| "str_join [x] = x"
| "str_join (x # y # ys) = x @ '' '' @ str_join (y # ys)"

text \<open>\<^verbatim>\<open>os.path.join(a, b)\<close> of \<^verbatim>\<open>posixpath\<close>, for two components.\<close>

definition os_path_join :: "string \<Rightarrow> string \<Rightarrow> string" where
  "os_path_join a b =
     (if startswith b ''/'' then b
      else if a = [] \<or> last a = CHR ''/'' then a @ b
      else a @ ''/'' @ b)"

subsection \<open>The regular expression of the classifier\<close>

text \<open>
  \<^verbatim>\<open>re.search("Details\s*:\s*(?P<error>.*)", line)\<close>. The class \<^verbatim>\<open>\s\<close> is the ASCII
  white space \<^verbatim>\<open>[ \t\n\r\f\v]\<close>. At a fixed start position the pattern matches exactly
  when the text \<^verbatim>\<open>Details\<close> is followed by white space and then a colon: the colon is not
  white space, so the greedy \<^verbatim>\<open>\s*\<close> never has to give a character back. The group
  \<^verbatim>\<open>error\<close> is what follows the colon and the white space after it, up to the end of the
  line (\<^verbatim>\<open>.\<close> stops at a line feed). \<^verbatim>\<open>re.search\<close> returns the match at the leftmost
  start position that has one; \<open>None\<close> is Python's \<^verbatim>\<open>None\<close>.
\<close>

definition is_space :: "char \<Rightarrow> bool" where
  "is_space c = (c \<in> set [CHR '' '', CHR 0x09, CHR 0x0A, CHR 0x0D, CHR 0x0C, CHR 0x0B])"

definition match_details :: "string \<Rightarrow> string option" where
  "match_details s =
     (if startswith s ''Details'' then
        (case dropWhile is_space (drop 7 s) of
           [] \<Rightarrow> None
         | c # r \<Rightarrow>
             if c = CHR '':''
             then Some (takeWhile (\<lambda>x. x \<noteq> CHR 0x0A) (dropWhile is_space r))
             else None)
      else None)"

fun search_details :: "string \<Rightarrow> string option" where
  "search_details [] = match_details []"
| "search_details (c # cs) =
     (case match_details (c # cs) of
        Some e \<Rightarrow> Some e
      | None \<Rightarrow> search_details cs)"

subsection \<open>Error codes and the structured error\<close>

text \<open>
  \<^verbatim>\<open>ErrorCodes\<close> is imported from \<^verbatim>\<open>pilot.common.exception\<close>; the four constants the
  module reads are fields of a record that the model takes as a parameter.
\<close>

record ErrorCodes =
  STAGEINFAILED :: int
  STAGEOUTFAILED :: int
  RUCIOSERVICEUNAVAILABLE :: int
  PUTADMISMATCH :: int

text \<open>The dictionary \<^verbatim>\<open>{'rcode', 'state', 'error'}\<close> that the classifier returns.\<close>

record transfer_error =
  rcode :: int
  state :: string
  error :: string

definition py_bool :: "bool \<Rightarrow> string" where
  "py_bool b = (if b then ''True'' else ''False'')"

subsection \<open>\<^verbatim>\<open>resolve_transfer_error\<close>\<close>

text \<open>The body of the loop over the lines (source lines 180 to 185).\<close>

definition scan_line :: "ErrorCodes \<Rightarrow> transfer_error \<Rightarrow> string \<Rightarrow> transfer_error" where
  "scan_line ec ret line =
     (case search_details line of
        Some e \<Rightarrow> ret\<lparr>error := e\<rparr>
      | None \<Rightarrow>
          if str_in ''service_unavailable'' line
          then ret\<lparr>error := ''service_unavailable'', rcode := RUCIOSERVICEUNAVAILABLE ec\<rparr>
          else ret)"

definition resolve_transfer_error :: "ErrorCodes \<Rightarrow> string \<Rightarrow> bool \<Rightarrow> transfer_error" where
  "resolve_transfer_error ec output is_stagein =
     foldl (scan_line ec)
       \<lparr>rcode = (if is_stagein then STAGEINFAILED ec else STAGEOUTFAILED ec),
        state = ''COPY_ERROR'',
        error = ''Copy operation failed [is_stagein='' @ py_bool is_stagein @ '']: '' @ output\<rparr>
       (str_split output)"

text \<open>Sample values of the error codes, used to evaluate the model on concrete inputs.\<close>

definition sample_codes :: ErrorCodes where
  "sample_codes =
     \<lparr>STAGEINFAILED = 1099, STAGEOUTFAILED = 1137,
      RUCIOSERVICEUNAVAILABLE = 1314, PUTADMISMATCH = 1141\<rparr>"

subsection \<open>Python values, exceptions and observable effects\<close>

text \<open>
  Values whose type the code does not fix: the \<^verbatim>\<open>summary\<close> option (which the code later
  rebinds to the parsed summary), the parsed JSON and what is read out of it, and the
  \<^verbatim>\<open>turl\<close> of a record (which the code overwrites with a value taken from the JSON).
  JSON numbers are integers here.
\<close>

datatype pyval =
    PyNone
  | PyBool bool
  | PyInt int
  | PyStr string
  | PyList "pyval list"
  | PyDict "(string \<times> pyval) list"

text \<open>Truth value testing, as \<^verbatim>\<open>if x:\<close> and \<^verbatim>\<open>x or y\<close> do it.\<close>

fun truthy :: "pyval \<Rightarrow> bool" where
  "truthy PyNone = False"
| "truthy (PyBool b) = b"
| "truthy (PyInt n) = (n \<noteq> 0)"
| "truthy (PyStr s) = (s \<noteq> [])"
| "truthy (PyList xs) = (xs \<noteq> [])"
| "truthy (PyDict kvs) = (kvs \<noteq> [])"

text \<open>
  The exceptions that leave the module: the controlled \<^verbatim>\<open>PilotException(message, code=,
  state=)\<close>, and the errors Python raises by itself when a value has the wrong shape.
\<close>

datatype exn =
    PilotException string int string
  | AttributeError
  | TypeError
  | ValueError

text \<open>\<^verbatim>\<open>d.get(key)\<close>: defined on dictionaries only, \<^verbatim>\<open>None\<close> for a missing key.\<close>

fun py_get :: "pyval \<Rightarrow> string \<Rightarrow> exn + pyval" where
  "py_get (PyDict kvs) k = Inr (case map_of kvs k of None \<Rightarrow> PyNone | Some v \<Rightarrow> v)"
| "py_get _ k = Inl AttributeError"

text \<open>
  What a call does to the outside is recorded in a trace, in the order of execution: the
  environment variable set, the command lines handed to \<^verbatim>\<open>execute\<close>, the log records
  (level, format string, arguments of \<^verbatim>\<open>%\<close>) and the files opened for
  \<^verbatim>\<open>json.load\<close>.
\<close>

datatype level = INFO | WARNING | ERROR

datatype event =
    Setenv string string
  | Execute string
  | Log level string "pyval list"
  | JsonLoad string

subsection \<open>File records and options\<close>

text \<open>
  A \<^verbatim>\<open>FileSpec\<close> object, with the attributes the module reads or writes. An absent
  string attribute is the empty string (both are false for Python). \<open>is_directaccess\<close> is
  the value of the method call \<^verbatim>\<open>fspec.is_directaccess(ensure_replica=False)\<close>; each
  replica is a pair whose first component is the storage element's name.
\<close>

record FileSpec =
  scope :: string
  lfn :: string
  guid :: string
  workdir :: string
  ddmendpoint :: string
  surl :: string
  turl :: pyval
  replicas :: "(string \<times> string) list"
  checksum :: "string \<rightharpoonup> string"
  is_directaccess :: bool
  status_code :: int
  status :: string

text \<open>
  The keyword arguments. \<^verbatim>\<open>copy_out\<close> takes \<^verbatim>\<open>no_register\<close> (default false),
  \<^verbatim>\<open>summary\<close> (default \<^verbatim>\<open>True\<close>) and \<^verbatim>\<open>ignore_errors\<close> (default false);
  \<^verbatim>\<open>copy_in\<close> reads \<^verbatim>\<open>allow_direct_access\<close> and \<^verbatim>\<open>ignore_errors\<close>; both read
  \<^verbatim>\<open>workdir\<close>.
\<close>

record kwargs =
  kw_allow_direct_access :: bool
  kw_ignore_errors :: bool
  kw_no_register :: bool
  kw_summary :: pyval
  kw_workdir :: string

definition default_kwargs :: kwargs where
  "default_kwargs =
     \<lparr>kw_allow_direct_access = False, kw_ignore_errors = False, kw_no_register = False,
      kw_summary = PyBool True, kw_workdir = []\<rparr>"

subsection \<open>The collaborators\<close>

text \<open>
  The world outside the module has a state of type \<open>'w\<close>. \<open>execute\<close> runs a command line
  and returns \<^verbatim>\<open>(exit code, stdout, stderr)\<close> and the world after it;
  \<open>path_exists\<close> is \<^verbatim>\<open>os.path.exists\<close>; \<open>json_load\<close> opens and parses a file
  (\<open>None\<close> when the content is not JSON, where \<^verbatim>\<open>json.load\<close> raises
  \<^verbatim>\<open>ValueError\<close>); \<open>verify_catalog_checksum\<close> returns \<^verbatim>\<open>(state, diagnostics)\<close> and
  the record as it leaves it. The keyword arguments that the module hands on to
  \<^verbatim>\<open>execute\<close> are part of that collaborator. Each record of a batch is an object of its
  own: the batch is a list of values.
\<close>

record 'w env =
  codes :: ErrorCodes
  execute :: "string \<Rightarrow> 'w \<Rightarrow> (int \<times> string \<times> string) \<times> 'w"
  path_exists :: "string \<Rightarrow> 'w \<Rightarrow> bool"
  json_load :: "string \<Rightarrow> 'w \<Rightarrow> pyval option"
  verify_catalog_checksum :: "FileSpec \<Rightarrow> string \<Rightarrow> 'w \<Rightarrow> (string \<times> string) \<times> FileSpec"

text \<open>The state threaded through a call: the world and the trace so far.\<close>

type_synonym 'w run = "'w \<times> event list"

definition emit :: "event list \<Rightarrow> 'w run \<Rightarrow> 'w run" where
  "emit es s = (fst s, snd s @ es)"

definition require_replicas :: bool where
  "require_replicas = True"

definition require_protocols :: bool where
  "require_protocols = False"

definition is_valid_for_copy_in :: "FileSpec list \<Rightarrow> bool" where
  "is_valid_for_copy_in files = True"

definition is_valid_for_copy_out :: "FileSpec list \<Rightarrow> bool" where
  "is_valid_for_copy_out files = True"

text \<open>\<^verbatim>\<open>fspec.workdir or kwargs.get('workdir') or '.'\<close>\<close>

definition work_dir :: "kwargs \<Rightarrow> FileSpec \<Rightarrow> string" where
  "work_dir kw fspec =
     (if workdir fspec \<noteq> [] then workdir fspec
      else if kw_workdir kw \<noteq> [] then kw_workdir kw
      else ''.'')"

text \<open>
  The last statement of both loop bodies (source lines 86 to 88 and 163 to 165):
  \<^verbatim>\<open>if not fspec.status_code: fspec.status_code = 0; fspec.status = 'transferred'\<close>.
\<close>

definition mark_transferred :: "FileSpec \<Rightarrow> FileSpec" where
  "mark_transferred fspec =
     (if status_code fspec = 0
      then fspec\<lparr>status_code := 0, status := ''transferred''\<rparr>
      else fspec)"

subsection \<open>\<^verbatim>\<open>copy_in\<close>\<close>

text \<open>
  One pass of the loop body for a record that is not accessed directly, in two parts. The
  first part (source lines 58 to 75) builds the command line, runs it and classifies a
  failure. The result is the exception raised (if any), the record and the state.
\<close>

definition copy_in_cmd :: "kwargs \<Rightarrow> FileSpec \<Rightarrow> string list" where
  "copy_in_cmd kw fspec =
     [''/usr/bin/env'', ''rucio'', ''-v'', ''download'', ''--no-subdir'', ''--dir'',
      work_dir kw fspec]
     @ (case replicas fspec of
          [] \<Rightarrow> []
        | r # _ \<Rightarrow> if require_replicas then [''--rse'', fst r] else [])
     @ [scope fspec @ '':'' @ lfn fspec]"

definition copy_in_transfer ::
  "'w env \<Rightarrow> kwargs \<Rightarrow> FileSpec \<Rightarrow> 'w run \<Rightarrow> exn option \<times> FileSpec \<times> 'w run" where
  "copy_in_transfer env kw fspec0 s =
     (let fspec = fspec0\<lparr>status_code := 0\<rparr>;
          cmd = str_join (copy_in_cmd kw fspec);
          ((rc, stdout, stderr), w) = execute env cmd (fst s);
          s1 = emit [Execute cmd,
                     Log INFO ''stdout = %s'' [PyStr stdout],
                     Log INFO ''stderr = %s'' [PyStr stderr]] (w, snd s)
      in if rc \<noteq> 0 then
           (let err = resolve_transfer_error (codes env) stderr True;
                fspec1 = fspec\<lparr>status := ''failed'', status_code := rcode err\<rparr>
            in if \<not> kw_ignore_errors kw
               then (Some (PilotException (error err) (rcode err) (state err)), fspec1, s1)
               else (None, fspec1, s1))
         else (None, fspec, s1))"

text \<open>The second part (source lines 77 to 88): the check of the downloaded file.\<close>

definition copy_in_verify ::
  "'w env \<Rightarrow> kwargs \<Rightarrow> FileSpec \<Rightarrow> 'w run \<Rightarrow> exn option \<times> FileSpec \<times> 'w run" where
  "copy_in_verify env kw fspec s =
     (let destination = os_path_join (work_dir kw fspec) (lfn fspec)
      in if path_exists env destination (fst s) then
           (let ((st, diagnostics), fspec1) =
                  verify_catalog_checksum env fspec destination (fst s)
            in if status_code fspec1 \<noteq> 0 \<and> \<not> kw_ignore_errors kw
               then (Some (PilotException diagnostics (status_code fspec1) st), fspec1, s)
               else (None, mark_transferred fspec1, s))
         else (None, mark_transferred fspec,
               emit [Log WARNING ''wrong path: %s'' [PyStr destination]] s))"

text \<open>The loop body (source lines 52 to 88).\<close>

definition copy_in_file ::
  "'w env \<Rightarrow> kwargs \<Rightarrow> FileSpec \<Rightarrow> 'w run \<Rightarrow> exn option \<times> FileSpec \<times> 'w run" where
  "copy_in_file env kw fspec s =
     (if is_directaccess fspec \<and> kw_allow_direct_access kw
      then (None, fspec\<lparr>status_code := 0, status := ''remote_io''\<rparr>, s)
      else (case copy_in_transfer env kw fspec s of
              (Some e, fspec1, s1) \<Rightarrow> (Some e, fspec1, s1)
            | (None, fspec1, s1) \<Rightarrow> copy_in_verify env kw fspec1 s1))"

text \<open>
  The loop. An exception ends it; the records are mutated in place, so the list returned
  here is the list as the caller sees it afterwards, whether or not the call raised.
\<close>

fun copy_in_loop ::
  "'w env \<Rightarrow> kwargs \<Rightarrow> FileSpec list \<Rightarrow> 'w run \<Rightarrow> exn option \<times> FileSpec list \<times> 'w run" where
  "copy_in_loop env kw [] s = (None, [], s)"
| "copy_in_loop env kw (fspec # files) s =
     (case copy_in_file env kw fspec s of
        (Some e, fspec1, s1) \<Rightarrow> (Some e, fspec1 # files, s1)
      | (None, fspec1, s1) \<Rightarrow>
          (case copy_in_loop env kw files s1 of
             (r, files1, s2) \<Rightarrow> (r, fspec1 # files1, s2)))"

definition logging_format :: string where
  "logging_format = ''%(asctime)s %(levelname)s [%(message)s]''"

definition copy_in ::
  "'w env \<Rightarrow> FileSpec list \<Rightarrow> kwargs \<Rightarrow> 'w \<Rightarrow> exn option \<times> FileSpec list \<times> 'w run" where
  "copy_in env files kw w =
     copy_in_loop env kw files (w, [Setenv ''RUCIO_LOGGING_FORMAT'' logging_format])"

subsection \<open>\<^verbatim>\<open>copy_out\<close>\<close>

text \<open>
  The command line (source lines 110 to 127). \<^verbatim>\<open>" ".join(cmd)\<close> raises
  \<^verbatim>\<open>TypeError\<close> on an item that is not a string, which only a true \<^verbatim>\<open>turl\<close> that
  is not a string can be.
\<close>

definition copy_out_cmd :: "bool \<Rightarrow> pyval \<Rightarrow> FileSpec \<Rightarrow> exn + string list" where
  "copy_out_cmd no_register summary fspec =
     (let cmd = [''/usr/bin/env'', ''rucio'', ''-v'', ''upload'']
                @ [''--rse'', ddmendpoint fspec]
                @ (if scope fspec \<noteq> [] then [''--scope'', scope fspec] else [])
                @ (if guid fspec \<noteq> [] then [''--guid'', guid fspec] else [])
                @ (if no_register then [''--no-register''] else [])
                @ (if truthy summary then [''--summary''] else [])
      in if truthy (turl fspec) then
           (case turl fspec of
              PyStr t \<Rightarrow> Inr (cmd @ [''--pfn'', t] @ [surl fspec])
            | _ \<Rightarrow> Inl TypeError)
         else Inr (cmd @ [surl fspec]))"

text \<open>The first part of the loop body (source lines 110 to 140): run and classify.\<close>

definition copy_out_transfer ::
  "'w env \<Rightarrow> bool \<Rightarrow> bool \<Rightarrow> pyval \<Rightarrow> FileSpec \<Rightarrow> 'w run \<Rightarrow> exn option \<times> FileSpec \<times> 'w run" where
  "copy_out_transfer env no_register ignore_errors summary fspec s =
     (case copy_out_cmd no_register summary fspec of
        Inl e \<Rightarrow> (Some e, fspec, s)
      | Inr cmdl \<Rightarrow>
          (let cmd = str_join cmdl;
               ((rc, stdout, stderr), w) = execute env cmd (fst s);
               s1 = emit [Execute cmd,
                          Log INFO ''stdout = %s'' [PyStr stdout],
                          Log INFO ''stderr = %s'' [PyStr stderr]] (w, snd s);
               fspec1 = fspec\<lparr>status_code := 0\<rparr>
           in if rc \<noteq> 0 then
                (let err = resolve_transfer_error (codes env) stderr False;
                     fspec2 = fspec1\<lparr>status := ''failed'', status_code := rcode err\<rparr>
                 in if \<not> ignore_errors
                    then (Some (PilotException (error err) (rcode err) (state err)), fspec2, s1)
                    else (None, fspec2, s1))
              else (None, fspec1, s1)))"

text \<open>
  The lookup in the parsed summary and the comparison of the digests (source lines 150
  to 162). \<open>local\<close> is \<^verbatim>\<open>fspec.checksum.get('adler32')\<close>.
\<close>

definition check_summary ::
  "ErrorCodes \<Rightarrow> bool \<Rightarrow> pyval \<Rightarrow> FileSpec \<Rightarrow> 'w run \<Rightarrow> exn option \<times> FileSpec \<times> 'w run" where
  "check_summary ec ignore_errors summary fspec s =
     (case py_get summary (scope fspec @ '':'' @ lfn fspec) of
        Inl e \<Rightarrow> (Some e, fspec, s)
      | Inr v \<Rightarrow>
          (let dat = (if truthy v then v else PyDict []) in
           case py_get dat ''pfn'' of
             Inl e \<Rightarrow> (Some e, fspec, s)
           | Inr pfn \<Rightarrow>
               (let fspec1 = fspec\<lparr>turl := pfn\<rparr> in
                case py_get dat ''adler32'' of
                  Inl e \<Rightarrow> (Some e, fspec1, s)
                | Inr adler32 \<Rightarrow>
                    (let local = (case checksum fspec1 ''adler32'' of
                                    None \<Rightarrow> PyNone
                                  | Some c \<Rightarrow> PyStr c)
                     in if truthy local \<and> truthy adler32 \<and> local \<noteq> adler32 then
                          (let s1 = emit [Log WARNING
                                      ''checksum verification failed: local %s != remote %s''
                                      [local, adler32]] s;
                               fspec2 = fspec1\<lparr>status := ''failed'',
                                               status_code := PUTADMISMATCH ec\<rparr>
                           in if \<not> ignore_errors
                              then (Some (PilotException ''Failed to stageout: CRC mismatched''
                                            (PUTADMISMATCH ec) ''AD_MISMATCH''), fspec2, s1)
                              else (None, fspec2, s1))
                        else (None, fspec1, s)))))"

text \<open>
  The second part of the loop body (source lines 142 to 165). The variable
  \<^verbatim>\<open>summary\<close> holds the option on entry and is rebound to the parsed file by
  \<^verbatim>\<open>summary = json.load(f)\<close>; its value after the pass is part of the result.
\<close>

definition copy_out_summary ::
  "'w env \<Rightarrow> bool \<Rightarrow> kwargs \<Rightarrow> pyval \<Rightarrow> FileSpec \<Rightarrow> 'w run
     \<Rightarrow> exn option \<times> FileSpec \<times> pyval \<times> 'w run" where
  "copy_out_summary env ignore_errors kw summary fspec s =
     (if truthy summary then
        (let path = os_path_join (work_dir kw fspec) ''rucio_upload.json''
         in if \<not> path_exists env path (fst s) then
              (None, mark_transferred fspec, summary,
               emit [Log ERROR ''Failed to resolve Rucio summary JSON, wrong path? file=%s''
                       [PyStr path]] s)
            else
              (case json_load env path (fst s) of
                 None \<Rightarrow> (Some ValueError, fspec, summary, emit [JsonLoad path] s)
               | Some summary1 \<Rightarrow>
                   (case check_summary (codes env) ignore_errors summary1 fspec
                           (emit [JsonLoad path] s) of
                      (Some e, fspec1, s1) \<Rightarrow> (Some e, fspec1, summary1, s1)
                    | (None, fspec1, s1) \<Rightarrow> (None, mark_transferred fspec1, summary1, s1))))
      else (None, mark_transferred fspec, summary, s))"

text \<open>The loop body (source lines 110 to 165).\<close>

definition copy_out_file ::
  "'w env \<Rightarrow> bool \<Rightarrow> bool \<Rightarrow> kwargs \<Rightarrow> pyval \<Rightarrow> FileSpec \<Rightarrow> 'w run
     \<Rightarrow> exn option \<times> FileSpec \<times> pyval \<times> 'w run" where
  "copy_out_file env no_register ignore_errors kw summary fspec s =
     (case copy_out_transfer env no_register ignore_errors summary fspec s of
        (Some e, fspec1, s1) \<Rightarrow> (Some e, fspec1, summary, s1)
      | (None, fspec1, s1) \<Rightarrow> copy_out_summary env ignore_errors kw summary fspec1 s1)"

fun copy_out_loop ::
  "'w env \<Rightarrow> bool \<Rightarrow> bool \<Rightarrow> kwargs \<Rightarrow> pyval \<Rightarrow> FileSpec list \<Rightarrow> 'w run
     \<Rightarrow> exn option \<times> FileSpec list \<times> pyval \<times> 'w run" where
  "copy_out_loop env no_register ignore_errors kw summary [] s = (None, [], summary, s)"
| "copy_out_loop env no_register ignore_errors kw summary (fspec # files) s =
     (case copy_out_file env no_register ignore_errors kw summary fspec s of
        (Some e, fspec1, summary1, s1) \<Rightarrow> (Some e, fspec1 # files, summary1, s1)
      | (None, fspec1, summary1, s1) \<Rightarrow>
          (case copy_out_loop env no_register ignore_errors kw summary1 files s1 of
             (r, files1, summary2, s2) \<Rightarrow> (r, fspec1 # files1, summary2, s2)))"

definition copy_out ::
  "'w env \<Rightarrow> FileSpec list \<Rightarrow> kwargs \<Rightarrow> 'w \<Rightarrow> exn option \<times> FileSpec list \<times> 'w run" where
  "copy_out env files kw w =
     (case copy_out_loop env (kw_no_register kw) (kw_ignore_errors kw) kw (kw_summary kw) files
             (w, [Setenv ''RUCIO_LOGGING_FORMAT'' logging_format]) of
        (r, files1, summary1, s1) \<Rightarrow> (r, files1, s1))"

subsection \<open>Reading a trace and a status\<close>

text \<open>The command lines handed to \<^verbatim>\<open>execute\<close>, and the files opened for \<^verbatim>\<open>json.load\<close>.\<close>

fun executed :: "event list \<Rightarrow> string list" where
  "executed [] = []"
| "executed (e # es) = (case e of Execute c \<Rightarrow> c # executed es | _ \<Rightarrow> executed es)"

fun json_loads :: "event list \<Rightarrow> string list" where
  "json_loads [] = []"
| "json_loads (e # es) = (case e of JsonLoad p \<Rightarrow> p # json_loads es | _ \<Rightarrow> json_loads es)"

text \<open>
  The invariant of the data model: the status code is 0 exactly when the tag is
  \<^verbatim>\<open>remote_io\<close> or \<^verbatim>\<open>transferred\<close>, and a nonzero code comes with the tag
  \<^verbatim>\<open>failed\<close>.
\<close>

definition status_consistent :: "FileSpec \<Rightarrow> bool" where
  "status_consistent fspec =
     (((status_code fspec = 0) = (status fspec = ''remote_io'' \<or> status fspec = ''transferred''))
      \<and> (status_code fspec \<noteq> 0 \<longrightarrow> status fspec = ''failed''))"

text \<open>A record on which a direct access is taken instead of a download.\<close>

definition direct :: "kwargs \<Rightarrow> FileSpec \<Rightarrow> bool" where
  "direct kw fspec = (is_directaccess fspec \<and> kw_allow_direct_access kw)"

subsection \<open>Assumptions on what the module imports\<close>

text \<open>
  The checksum collaborator reports a mismatch through the record: when it leaves a
  nonzero status code on a record, it leaves the tag \<^verbatim>\<open>failed\<close> with it (on a record
  that came in that way).
\<close>

definition failure_tagged :: "FileSpec \<Rightarrow> bool" where
  "failure_tagged fspec = (status_code fspec \<noteq> 0 \<longrightarrow> status fspec = ''failed'')"

definition checksum_contract :: "'w env \<Rightarrow> bool" where
  "checksum_contract env =
     (\<forall>fspec path w.
        failure_tagged fspec \<longrightarrow>
        failure_tagged (snd (verify_catalog_checksum env fspec path w)))"

text \<open>
  What the code needs of a value to use it without a Python error. The parsed summary of
  a record: a JSON object whose entry for the key \<^verbatim>\<open>scope:lfn\<close> of the record, if there
  is one, is an object or a false value. The \<^verbatim>\<open>turl\<close> of a record: a string or a false
  value.
\<close>

fun is_dict :: "pyval \<Rightarrow> bool" where
  "is_dict (PyDict kvs) = True"
| "is_dict _ = False"

fun summary_readable :: "FileSpec \<Rightarrow> pyval \<Rightarrow> bool" where
  "summary_readable fspec (PyDict kvs) =
     (case map_of kvs (scope fspec @ '':'' @ lfn fspec) of
        None \<Rightarrow> True
      | Some v \<Rightarrow> is_dict v \<or> \<not> truthy v)"
| "summary_readable fspec _ = False"

fun turl_is_str :: "pyval \<Rightarrow> bool" where
  "turl_is_str (PyStr t) = True"
| "turl_is_str v = (\<not> truthy v)"

subsection \<open>A sample environment\<close>

text \<open>
  An environment for evaluating the model on concrete inputs. \<open>rc\<close> gives the exit code of
  a command line, \<open>err\<close> is the text on the standard error, \<open>present\<close> tells which paths
  exist, \<open>content\<close> is what \<^verbatim>\<open>json.load\<close> returns, and with \<open>mismatch\<close> the checksum
  collaborator finds a wrong digest and marks the record with the code 1171.
\<close>

definition sample_env ::
  "(string \<Rightarrow> int) \<Rightarrow> string \<Rightarrow> (string \<Rightarrow> bool) \<Rightarrow> pyval option \<Rightarrow> bool \<Rightarrow> unit env" where
  "sample_env rc err present content mismatch =
     \<lparr>codes = sample_codes,
      execute = (\<lambda>cmd w. ((rc cmd, [], err), w)),
      path_exists = (\<lambda>path w. present path),
      json_load = (\<lambda>path w. content),
      verify_catalog_checksum =
        (\<lambda>fspec path w.
           if mismatch
           then ((''AD_MISMATCH'', ''checksum mismatch''),
                 fspec\<lparr>status_code := 1171, status := ''failed''\<rparr>)
           else (([], []), fspec))\<rparr>"

definition sample_file :: "string \<Rightarrow> FileSpec" where
  "sample_file name =
     \<lparr>scope = ''scopeA'', lfn = name, guid = [], workdir = [], ddmendpoint = ''SITE_DISK'',
      surl = ''/data/'' @ name, turl = PyNone, replicas = [], checksum = [''adler32'' \<mapsto> ''deadbeef''],
      is_directaccess = False, status_code = 0, status = []\<rparr>"

text \<open>
  A client that fails on the command lines that mention \<open>name\<close>, and a batch of three
  records of which the first can be accessed directly.
\<close>

definition fail_on :: "string \<Rightarrow> string \<Rightarrow> int" where
  "fail_on name cmd = (if str_in name cmd then 1 else 0)"

definition sample_batch :: "FileSpec list" where
  "sample_batch =
     [(sample_file ''file1'')\<lparr>is_directaccess := True\<rparr>, sample_file ''file2'',
      sample_file ''file3'']"

text \<open>
  A summary artifact with one entry, for the record \<^verbatim>\<open>scopeA:file1\<close>, and the command
  line that uploads a sample record while the summary is requested.
\<close>

definition sample_summary :: pyval where
  "sample_summary =
     PyDict [(''scopeA:file1'',
              PyDict [(''pfn'', PyStr ''https://x/file1''), (''adler32'', PyStr ''deadbeef'')])]"

definition sample_upload :: "string \<Rightarrow> string list" where
  "sample_upload name =
     [''/usr/bin/env'', ''rucio'', ''-v'', ''upload'', ''--rse'', ''SITE_DISK'',
      ''--scope'', ''scopeA'', ''--summary'', ''/data/'' @ name]"

text \<open>
  A batch of three records to transfer, the command line that downloads one of them, and
  an environment in which the client fails on the second with a diagnostic.
\<close>

definition sample_files :: "FileSpec list" where
  "sample_files = [sample_file ''file1'', sample_file ''file2'', sample_file ''file3'']"

definition sample_download :: "string \<Rightarrow> string" where
  "sample_download name = ''/usr/bin/env rucio -v download --no-subdir --dir . scopeA:'' @ name"

definition failing_env :: "(string \<Rightarrow> bool) \<Rightarrow> pyval option \<Rightarrow> unit env" where
  "failing_env present content =
     sample_env (fail_on ''file2'') ''Details: disk full'' present content False"

text \<open>
  Two records with working directories of their own, the second expecting another digest
  than the summary holds for it, and an environment in which every command succeeds, the
  summary file of the first directory holds the empty object and every other summary
  file holds the sample summary.
\<close>

definition first_record :: FileSpec where
  "first_record = (sample_file ''file0'')\<lparr>workdir := ''/w0''\<rparr>"

definition second_record :: FileSpec where
  "second_record =
     (sample_file ''file1'')\<lparr>workdir := ''/w1'', checksum := [''adler32'' \<mapsto> ''cafef00d'']\<rparr>"

definition two_summaries_env :: "unit env" where
  "two_summaries_env =
     (sample_env (\<lambda>cmd. 0) [] (\<lambda>path. True) None False)
       \<lparr>json_load := (\<lambda>path w. if path = ''/w0/rucio_upload.json''
                                then Some (PyDict []) else Some sample_summary)\<rparr>"

text \<open>The definitions unfolded to evaluate the model on the samples.\<close>

lemmas sample_defs =
  sample_env_def sample_file_def sample_codes_def sample_batch_def fail_on_def default_kwargs_def
  sample_summary_def sample_upload_def sample_files_def sample_download_def failing_env_def
  first_record_def second_record_def two_summaries_env_def

lemmas copy_in_defs =
  copy_in_def copy_in_file_def copy_in_transfer_def copy_in_verify_def copy_in_cmd_def
  work_dir_def os_path_join_def startswith_def emit_def mark_transferred_def
  require_replicas_def logging_format_def Let_def

lemmas copy_out_defs =
  copy_out_def copy_out_file_def copy_out_transfer_def copy_out_summary_def check_summary_def
  copy_out_cmd_def work_dir_def os_path_join_def startswith_def emit_def mark_transferred_def
  logging_format_def Let_def

lemmas classifier_defs =
  resolve_transfer_error_def scan_line_def match_details_def startswith_def is_space_def
  py_bool_def

lemma str_split_nonempty: "str_split s \<noteq> []"
  by (induction s) (auto split: list.splits)

section \<open>The classifier\<close>

lemma foldl_scan_state: "state (foldl (scan_line ec) ret ls) = state ret"
  by (induction ls arbitrary: ret) (auto simp: scan_line_def split: option.splits)

lemma foldl_scan_rcode_kept:
  "rcode ret = RUCIOSERVICEUNAVAILABLE ec \<Longrightarrow>
   rcode (foldl (scan_line ec) ret ls) = RUCIOSERVICEUNAVAILABLE ec"
  by (induction ls arbitrary: ret) (auto simp: scan_line_def split: option.splits)

lemma foldl_scan_unmatched:
  "\<forall>l\<in>set ls. search_details l = None \<and> \<not> str_in ''service_unavailable'' l \<Longrightarrow>
   foldl (scan_line ec) ret ls = ret"
  by (induction ls arbitrary: ret) (auto simp: scan_line_def)

lemma foldl_scan_no_details:
  "\<forall>l\<in>set ls. search_details l = None \<Longrightarrow> error ret = ''service_unavailable'' \<Longrightarrow>
   error (foldl (scan_line ec) ret ls) = ''service_unavailable''"
  by (induction ls arbitrary: ret) (auto simp: scan_line_def)

lemma scan_line_marker:
  "search_details line = None \<Longrightarrow> str_in ''service_unavailable'' line \<Longrightarrow>
   scan_line ec ret line = ret\<lparr>error := ''service_unavailable'', rcode := RUCIOSERVICEUNAVAILABLE ec\<rparr>"
  by (simp add: scan_line_def)

lemma scan_line_details:
  "search_details line = Some e \<Longrightarrow> scan_line ec ret line = ret\<lparr>error := e\<rparr>"
  by (simp add: scan_line_def)

lemma search_details_disk_full: "search_details ''Details: disk full'' = Some ''disk full''"
  by (simp add: match_details_def startswith_def is_space_def)

text \<open>
  Claim C1, as the code has it. The claim says that a text with the marker
  \<^verbatim>\<open>service_unavailable\<close> on some line always yields the fixed message and the
  dedicated code. The code tests the marker only on a line that does not match the
  \<^verbatim>\<open>Details\<close> pattern, and every later matching line overwrites the message. What
  holds: when some line contains the marker and does not match the \<^verbatim>\<open>Details\<close>
  pattern, the code is \<^verbatim>\<open>RUCIOSERVICEUNAVAILABLE\<close> and the state \<^verbatim>\<open>COPY_ERROR\<close>
  whatever the other lines are; the message is \<^verbatim>\<open>service_unavailable\<close> when no later
  line matches the \<^verbatim>\<open>Details\<close> pattern.
\<close>

theorem service_unavailable_detected:
  assumes "str_split output = pre @ line # post"
      and "str_in ''service_unavailable'' line"
      and "search_details line = None"
  shows "rcode (resolve_transfer_error ec output is_stagein) = RUCIOSERVICEUNAVAILABLE ec
       \<and> state (resolve_transfer_error ec output is_stagein) = ''COPY_ERROR''
       \<and> ((\<forall>l\<in>set post. search_details l = None) \<longrightarrow>
            error (resolve_transfer_error ec output is_stagein) = ''service_unavailable'')"
  using assms
  by (simp add: resolve_transfer_error_def scan_line_marker foldl_scan_rcode_kept
        foldl_scan_state foldl_scan_no_details)

theorem service_unavailable_detected_witness:
  "str_split (''Details: quota'' @ [CHR 0x0A] @ ''503 service_unavailable'' @ [CHR 0x0A] @ ''bye'')
     = [''Details: quota''] @ ''503 service_unavailable'' # [''bye'']
   \<and> str_in ''service_unavailable'' ''503 service_unavailable''
   \<and> search_details ''503 service_unavailable'' = None
   \<and> search_details ''bye'' = None
   \<and> rcode (resolve_transfer_error sample_codes
        (''Details: quota'' @ [CHR 0x0A] @ ''503 service_unavailable'' @ [CHR 0x0A] @ ''bye'') True) = 1314
   \<and> error (resolve_transfer_error sample_codes
        (''Details: quota'' @ [CHR 0x0A] @ ''503 service_unavailable'' @ [CHR 0x0A] @ ''bye'') True)
       = ''service_unavailable''"
proof -
  have a: "str_split (''Details: quota'' @ [CHR 0x0A] @ ''503 service_unavailable'' @ [CHR 0x0A] @ ''bye'')
     = [''Details: quota''] @ ''503 service_unavailable'' # [''bye'']"
    by simp
  have b: "str_in ''service_unavailable'' ''503 service_unavailable''"
    by (simp add: startswith_def)
  have c: "search_details ''503 service_unavailable'' = None"
    by (simp add: match_details_def startswith_def)
  have d: "\<forall>l\<in>set [''bye'']. search_details l = None"
    by (simp add: match_details_def startswith_def)
  have e: "search_details ''bye'' = None"
    by (simp add: match_details_def startswith_def)
  from service_unavailable_detected [OF a b c, of sample_codes True] a b c d e
  show ?thesis by (simp add: sample_codes_def)
qed

text \<open>
  Claim C1 as stated fails: a \<^verbatim>\<open>Details\<close> line after the marker line replaces the
  message, and a marker on a line that matches the \<^verbatim>\<open>Details\<close> pattern changes neither
  the message nor the code.
\<close>

theorem service_unavailable_counterexample:
  "str_in ''service_unavailable'' (hd (str_split (''service_unavailable'' @ [CHR 0x0A] @ ''Details: disk full'')))
   \<and> error (resolve_transfer_error sample_codes
        (''service_unavailable'' @ [CHR 0x0A] @ ''Details: disk full'') True) = ''disk full''
   \<and> str_in ''service_unavailable'' (hd (str_split ''Details: service_unavailable (503)''))
   \<and> rcode (resolve_transfer_error sample_codes ''Details: service_unavailable (503)'' True) = 1099
   \<and> error (resolve_transfer_error sample_codes ''Details: service_unavailable (503)'' True)
       = ''service_unavailable (503)''"
  by (simp add: resolve_transfer_error_def scan_line_def match_details_def startswith_def
        is_space_def sample_codes_def py_bool_def)

lemma foldl_scan_last_details:
  "search_details line = Some e \<Longrightarrow>
   \<forall>l\<in>set post. search_details l = None \<and> \<not> str_in ''service_unavailable'' l \<Longrightarrow>
   error (foldl (scan_line ec) ret (pre @ line # post)) = e"
  by (simp add: foldl_scan_unmatched scan_line_details)

text \<open>
  Claim C9, as the code has it. A line \<^verbatim>\<open>Details: disk full\<close> gives the message
  \<^verbatim>\<open>disk full\<close> when no later line matches the \<^verbatim>\<open>Details\<close> pattern or contains the
  marker (a later match overwrites the message). A text with no line that matches the
  pattern or contains the marker gives the default code of the direction, the state
  \<^verbatim>\<open>COPY_ERROR\<close> and the message that ends with the raw text. The classifier is total
  and its state is always \<^verbatim>\<open>COPY_ERROR\<close>.
\<close>

theorem classifier_results:
  "(str_split output = pre @ ''Details: disk full'' # post
      \<and> (\<forall>l\<in>set post. search_details l = None \<and> \<not> str_in ''service_unavailable'' l)
      \<longrightarrow> error (resolve_transfer_error ec output is_stagein) = ''disk full'')
   \<and> ((\<forall>l\<in>set (str_split output). search_details l = None \<and> \<not> str_in ''service_unavailable'' l)
      \<longrightarrow> resolve_transfer_error ec output is_stagein =
            \<lparr>rcode = (if is_stagein then STAGEINFAILED ec else STAGEOUTFAILED ec),
             state = ''COPY_ERROR'',
             error = ''Copy operation failed [is_stagein='' @ py_bool is_stagein @ '']: '' @ output\<rparr>)
   \<and> state (resolve_transfer_error ec output is_stagein) = ''COPY_ERROR''"
proof (intro conjI impI)
  assume "str_split output = pre @ ''Details: disk full'' # post
      \<and> (\<forall>l\<in>set post. search_details l = None \<and> \<not> str_in ''service_unavailable'' l)"
  then show "error (resolve_transfer_error ec output is_stagein) = ''disk full''"
    unfolding resolve_transfer_error_def
    using foldl_scan_last_details [OF search_details_disk_full] by metis
next
  assume "\<forall>l\<in>set (str_split output). search_details l = None \<and> \<not> str_in ''service_unavailable'' l"
  then show "resolve_transfer_error ec output is_stagein =
            \<lparr>rcode = (if is_stagein then STAGEINFAILED ec else STAGEOUTFAILED ec),
             state = ''COPY_ERROR'',
             error = ''Copy operation failed [is_stagein='' @ py_bool is_stagein @ '']: '' @ output\<rparr>"
    unfolding resolve_transfer_error_def by (rule foldl_scan_unmatched)
next
  show "state (resolve_transfer_error ec output is_stagein) = ''COPY_ERROR''"
    unfolding resolve_transfer_error_def by (simp only: foldl_scan_state transfer_error.simps)
qed

text \<open>
  Claim C9 as stated fails for a text that has the line \<^verbatim>\<open>Details: disk full\<close> and a
  later \<^verbatim>\<open>Details\<close> line: the later line's message is returned.
\<close>

theorem classifier_counterexample:
  "''Details: disk full'' \<in> set (str_split (''Details: disk full'' @ [CHR 0x0A] @ ''Details: quota exceeded''))
   \<and> error (resolve_transfer_error sample_codes
        (''Details: disk full'' @ [CHR 0x0A] @ ''Details: quota exceeded'') True) = ''quota exceeded''"
  by (simp add: resolve_transfer_error_def scan_line_def match_details_def startswith_def
        is_space_def sample_codes_def py_bool_def)

theorem classifier_results_witness:
  "str_split (''Details: disk full'' @ [CHR 0x0A] @ ''see log'') = [] @ ''Details: disk full'' # [''see log'']
   \<and> search_details ''see log'' = None \<and> \<not> str_in ''service_unavailable'' ''see log''
   \<and> error (resolve_transfer_error sample_codes (''Details: disk full'' @ [CHR 0x0A] @ ''see log'') True) = ''disk full''
   \<and> str_split ''timed out'' = [''timed out'']
   \<and> search_details ''timed out'' = None \<and> \<not> str_in ''service_unavailable'' ''timed out''
   \<and> resolve_transfer_error sample_codes ''timed out'' False =
        \<lparr>rcode = 1137, state = ''COPY_ERROR'',
         error = ''Copy operation failed [is_stagein=False]: timed out''\<rparr>"
proof -
  have a: "str_split (''Details: disk full'' @ [CHR 0x0A] @ ''see log'') = [] @ ''Details: disk full'' # [''see log'']"
    by simp
  have b: "\<forall>l\<in>set [''see log'']. search_details l = None \<and> \<not> str_in ''service_unavailable'' l"
    by (simp add: match_details_def startswith_def)
  have c: "\<forall>l\<in>set (str_split ''timed out''). search_details l = None \<and> \<not> str_in ''service_unavailable'' l"
    by (simp add: match_details_def startswith_def)
  from classifier_results [of "''Details: disk full'' @ [CHR 0x0A] @ ''see log''" "[]" "[''see log'']" sample_codes True]
    a b
  have d: "error (resolve_transfer_error sample_codes (''Details: disk full'' @ [CHR 0x0A] @ ''see log'') True) = ''disk full''"
    by blast
  from classifier_results [of "''timed out''" "[]" "[]" sample_codes False] c
  have e: "resolve_transfer_error sample_codes ''timed out'' False =
        \<lparr>rcode = 1137, state = ''COPY_ERROR'',
         error = ''Copy operation failed [is_stagein=False]: timed out''\<rparr>"
    by (simp add: sample_codes_def py_bool_def)
  have f: "search_details ''see log'' = None \<and> \<not> str_in ''service_unavailable'' ''see log''"
    by (simp add: match_details_def startswith_def)
  have g: "str_split ''timed out'' = [''timed out'']
     \<and> search_details ''timed out'' = None \<and> \<not> str_in ''service_unavailable'' ''timed out''"
    by (simp add: match_details_def startswith_def)
  from a d e f g show ?thesis by blast
qed

section \<open>The transfers\<close>

lemma executed_append: "executed (xs @ ys) = executed xs @ executed ys"
  by (induction xs) (auto split: event.splits)

lemma json_loads_append: "json_loads (xs @ ys) = json_loads xs @ json_loads ys"
  by (induction xs) (auto split: event.splits)

lemma copy_in_cmd_status_code: "copy_in_cmd kw (fspec\<lparr>status_code := c\<rparr>) = copy_in_cmd kw fspec"
  by (simp add: copy_in_cmd_def work_dir_def)

lemma work_dir_status: "work_dir kw (fspec\<lparr>status_code := c, status := t\<rparr>) = work_dir kw fspec"
  "work_dir kw (fspec\<lparr>status_code := c\<rparr>) = work_dir kw fspec"
  by (simp_all add: work_dir_def)

lemma rcode_resolve:
  "rcode (resolve_transfer_error ec output is_stagein) =
     (if is_stagein then STAGEINFAILED ec else STAGEOUTFAILED ec)
   \<or> rcode (resolve_transfer_error ec output is_stagein) = RUCIOSERVICEUNAVAILABLE ec"
proof -
  have "rcode (foldl (scan_line ec) ret ls) = rcode ret
        \<or> rcode (foldl (scan_line ec) ret ls) = RUCIOSERVICEUNAVAILABLE ec" for ret ls
  proof (induction ls arbitrary: ret)
    case Nil
    show ?case by simp
  next
    case (Cons l ls)
    have "rcode (scan_line ec ret l) = rcode ret \<or> rcode (scan_line ec ret l) = RUCIOSERVICEUNAVAILABLE ec"
      by (simp add: scan_line_def split: option.splits)
    with Cons [of "scan_line ec ret l"] foldl_scan_rcode_kept [of "scan_line ec ret l" ec ls]
    show ?case by auto
  qed
  from this [of "\<lparr>rcode = (if is_stagein then STAGEINFAILED ec else STAGEOUTFAILED ec),
        state = ''COPY_ERROR'',
        error = ''Copy operation failed [is_stagein='' @ py_bool is_stagein @ '']: '' @ output\<rparr>" "str_split output"]
  show ?thesis unfolding resolve_transfer_error_def by simp
qed

lemma state_resolve: "state (resolve_transfer_error ec output is_stagein) = ''COPY_ERROR''"
  unfolding resolve_transfer_error_def by (simp only: foldl_scan_state transfer_error.simps)

subsection \<open>One pass of \<^verbatim>\<open>copy_in\<close>\<close>

lemma copy_in_transfer_ok:
  assumes "execute env (str_join (copy_in_cmd kw fspec)) (fst s) = ((0, out, err), w)"
  shows "copy_in_transfer env kw fspec s =
           (None, fspec\<lparr>status_code := 0\<rparr>,
            (w, snd s @ [Execute (str_join (copy_in_cmd kw fspec)),
                         Log INFO ''stdout = %s'' [PyStr out],
                         Log INFO ''stderr = %s'' [PyStr err]]))"
  using assms by (simp add: copy_in_transfer_def copy_in_cmd_status_code emit_def)

lemma copy_in_transfer_failed:
  assumes "execute env (str_join (copy_in_cmd kw fspec)) (fst s) = ((rc, out, err), w)"
      and "rc \<noteq> 0"
  shows "copy_in_transfer env kw fspec s =
           ((if kw_ignore_errors kw then None
             else Some (PilotException (error (resolve_transfer_error (codes env) err True))
                          (rcode (resolve_transfer_error (codes env) err True))
                          (state (resolve_transfer_error (codes env) err True)))),
            fspec\<lparr>status_code := rcode (resolve_transfer_error (codes env) err True),
                  status := ''failed''\<rparr>,
            (w, snd s @ [Execute (str_join (copy_in_cmd kw fspec)),
                         Log INFO ''stdout = %s'' [PyStr out],
                         Log INFO ''stderr = %s'' [PyStr err]]))"
  using assms by (simp add: copy_in_transfer_def copy_in_cmd_status_code emit_def Let_def)

lemma copy_in_verify_missing:
  assumes "\<not> path_exists env (os_path_join (work_dir kw fspec) (lfn fspec)) (fst s)"
  shows "copy_in_verify env kw fspec s =
           (None, mark_transferred fspec,
            (fst s, snd s @ [Log WARNING ''wrong path: %s''
                               [PyStr (os_path_join (work_dir kw fspec) (lfn fspec))]]))"
  using assms by (simp add: copy_in_verify_def emit_def Let_def)

lemma copy_in_verify_present:
  assumes "path_exists env (os_path_join (work_dir kw fspec) (lfn fspec)) (fst s)"
      and "verify_catalog_checksum env fspec (os_path_join (work_dir kw fspec) (lfn fspec)) (fst s)
             = ((st, diag), fspec1)"
  shows "copy_in_verify env kw fspec s =
           (if status_code fspec1 \<noteq> 0 \<and> \<not> kw_ignore_errors kw
            then (Some (PilotException diag (status_code fspec1) st), fspec1, s)
            else (None, mark_transferred fspec1, s))"
  using assms by (simp add: copy_in_verify_def Let_def)

lemma copy_in_file_direct:
  "direct kw fspec \<Longrightarrow>
   copy_in_file env kw fspec s = (None, fspec\<lparr>status_code := 0, status := ''remote_io''\<rparr>, s)"
  by (simp add: copy_in_file_def direct_def)

lemma copy_in_file_not_direct:
  "\<not> direct kw fspec \<Longrightarrow>
   copy_in_file env kw fspec s =
     (case copy_in_transfer env kw fspec s of
        (Some e, fspec1, s1) \<Rightarrow> (Some e, fspec1, s1)
      | (None, fspec1, s1) \<Rightarrow> copy_in_verify env kw fspec1 s1)"
  by (auto simp: copy_in_file_def direct_def)

lemma copy_in_loop_append:
  "copy_in_loop env kw (xs @ ys) s =
     (case copy_in_loop env kw xs s of
        (Some e, xs1, s1) \<Rightarrow> (Some e, xs1 @ ys, s1)
      | (None, xs1, s1) \<Rightarrow>
          (case copy_in_loop env kw ys s1 of (r, ys1, s2) \<Rightarrow> (r, xs1 @ ys1, s2)))"
  by (induction xs arbitrary: s) (auto split: prod.splits option.splits)

lemma copy_in_loop_length:
  "copy_in_loop env kw files s = (r, files1, s1) \<Longrightarrow> length files1 = length files"
  by (induction files arbitrary: s r files1 s1) (auto split: prod.splits option.splits)


subsection \<open>One pass of \<^verbatim>\<open>copy_out\<close>\<close>

lemma copy_out_cmd_str:
  "turl_is_str (turl fspec) \<Longrightarrow> \<exists>cmdl. copy_out_cmd no_register summary fspec = Inr cmdl"
  by (cases "turl fspec") (auto simp: copy_out_cmd_def Let_def)


lemma copy_out_transfer_failed:
  assumes "copy_out_cmd no_register summary fspec = Inr cmdl"
      and "execute env (str_join cmdl) (fst s) = ((rc, out, err), w)"
      and "rc \<noteq> 0"
  shows "copy_out_transfer env no_register ignore_errors summary fspec s =
           ((if ignore_errors then None
             else Some (PilotException (error (resolve_transfer_error (codes env) err False))
                          (rcode (resolve_transfer_error (codes env) err False))
                          (state (resolve_transfer_error (codes env) err False)))),
            fspec\<lparr>status_code := rcode (resolve_transfer_error (codes env) err False),
                  status := ''failed''\<rparr>,
            (w, snd s @ [Execute (str_join cmdl),
                         Log INFO ''stdout = %s'' [PyStr out],
                         Log INFO ''stderr = %s'' [PyStr err]]))"
  using assms by (simp add: copy_out_transfer_def emit_def Let_def)

lemma check_summary_empty:
  "check_summary ec ignore_errors (PyDict []) fspec s = (None, fspec\<lparr>turl := PyNone\<rparr>, s)"
  by (simp add: check_summary_def)


subsection \<open>The status invariant\<close>

lemma mark_transferred_consistent:
  "failure_tagged fspec \<Longrightarrow> status_consistent (mark_transferred fspec)"
  by (auto simp: failure_tagged_def status_consistent_def mark_transferred_def)

lemma mark_transferred_fields:
  "turl (mark_transferred fspec) = turl fspec"
  "status_code (mark_transferred fspec) = status_code fspec"
  "checksum (mark_transferred fspec) = checksum fspec"
  by (simp_all add: mark_transferred_def)

lemma copy_in_transfer_tagged:
  "copy_in_transfer env kw fspec s = (r, fspec1, s1) \<Longrightarrow> failure_tagged fspec1"
  by (auto simp: copy_in_transfer_def failure_tagged_def Let_def split: prod.splits if_splits)

lemma copy_in_verify_consistent:
  assumes "checksum_contract env" and "failure_tagged fspec"
      and "copy_in_verify env kw fspec s = (None, fspec1, s1)"
  shows "status_consistent fspec1"
proof (cases "path_exists env (os_path_join (work_dir kw fspec) (lfn fspec)) (fst s)")
  case False
  with assms(3) have "fspec1 = mark_transferred fspec"
    by (simp add: copy_in_verify_missing)
  with assms(2) show ?thesis by (simp add: mark_transferred_consistent)
next
  case True
  obtain st diag fspec2 where v:
    "verify_catalog_checksum env fspec (os_path_join (work_dir kw fspec) (lfn fspec)) (fst s)
       = ((st, diag), fspec2)"
    by (metis surj_pair)
  from assms(1,2) have "failure_tagged (snd (verify_catalog_checksum env fspec
      (os_path_join (work_dir kw fspec) (lfn fspec)) (fst s)))"
    unfolding checksum_contract_def by blast
  with v have t: "failure_tagged fspec2" by simp
  from assms(3) True v have "fspec1 = mark_transferred fspec2"
    by (simp add: copy_in_verify_present split: if_splits)
  with t show ?thesis by (simp add: mark_transferred_consistent)
qed

lemma copy_in_file_consistent:
  assumes "checksum_contract env"
      and "copy_in_file env kw fspec s = (None, fspec1, s1)"
  shows "status_consistent fspec1"
proof (cases "direct kw fspec")
  case True
  with assms(2) show ?thesis
    by (auto simp: copy_in_file_direct status_consistent_def)
next
  case False
  obtain r fspec2 s2 where t: "copy_in_transfer env kw fspec s = (r, fspec2, s2)"
    by (metis surj_pair)
  with assms(2) False have "copy_in_verify env kw fspec2 s2 = (None, fspec1, s1)"
    by (cases r) (simp_all add: copy_in_file_not_direct)
  with assms(1) copy_in_transfer_tagged [OF t] show ?thesis
    by (rule copy_in_verify_consistent)
qed

lemma copy_in_loop_consistent:
  assumes "checksum_contract env"
  shows "copy_in_loop env kw files s = (None, files1, s1) \<Longrightarrow>
         \<forall>fspec\<in>set files1. status_consistent fspec"
proof (induction files arbitrary: s files1 s1)
  case Nil
  then show ?case by simp
next
  case (Cons f files)
  obtain r f1 s2 where p: "copy_in_file env kw f s = (r, f1, s2)"
    by (metis surj_pair)
  show ?case
  proof (cases r)
    case (Some e)
    with p Cons.prems show ?thesis by simp
  next
    case None
    obtain r2 files2 s3 where l: "copy_in_loop env kw files s2 = (r2, files2, s3)"
      by (metis surj_pair)
    with p None Cons.prems have eq: "r2 = None" "files1 = f1 # files2" "s1 = s3"
      by simp_all
    from p None assms have "status_consistent f1"
      by (auto intro: copy_in_file_consistent)
    moreover from Cons.IH l eq have "\<forall>fspec\<in>set files2. status_consistent fspec"
      by blast
    ultimately show ?thesis using eq by simp
  qed
qed

lemma copy_out_transfer_tagged:
  "copy_out_transfer env no_register ignore_errors summary fspec s = (None, fspec1, s1) \<Longrightarrow>
   failure_tagged fspec1"
  by (auto simp: copy_out_transfer_def failure_tagged_def Let_def
      split: prod.splits if_splits sum.splits)

lemma check_summary_tagged:
  "check_summary ec ignore_errors summary fspec s = (r, fspec1, s1) \<Longrightarrow>
   failure_tagged fspec \<Longrightarrow> failure_tagged fspec1"
  by (auto simp: check_summary_def failure_tagged_def Let_def
      split: prod.splits if_splits sum.splits)

lemma copy_out_summary_consistent:
  assumes "failure_tagged fspec"
      and "copy_out_summary env ignore_errors kw summary fspec s = (None, fspec1, summary1, s1)"
  shows "status_consistent fspec1"
proof (cases "truthy summary
    \<and> path_exists env (os_path_join (work_dir kw fspec) ''rucio_upload.json'') (fst s)")
  case False
  with assms(2) have "fspec1 = mark_transferred fspec"
    by (auto simp: copy_out_summary_def Let_def split: if_splits)
  with assms(1) show ?thesis by (simp add: mark_transferred_consistent)
next
  case True
  define s0 where "s0 = emit [JsonLoad (os_path_join (work_dir kw fspec) ''rucio_upload.json'')] s"
  from True assms(2) obtain summary2 where
    j: "json_load env (os_path_join (work_dir kw fspec) ''rucio_upload.json'') (fst s) = Some summary2"
    by (cases "json_load env (os_path_join (work_dir kw fspec) ''rucio_upload.json'') (fst s)")
       (simp_all add: copy_out_summary_def)
  obtain r fspec2 s2 where c:
    "check_summary (codes env) ignore_errors summary2 fspec s0 = (r, fspec2, s2)"
    by (metis surj_pair)
  with True j assms(2) have "fspec1 = mark_transferred fspec2"
    by (cases r) (simp_all add: copy_out_summary_def s0_def)
  moreover from c assms(1) have "failure_tagged fspec2"
    by (rule check_summary_tagged)
  ultimately show ?thesis by (simp add: mark_transferred_consistent)
qed

lemma copy_out_file_consistent:
  assumes "copy_out_file env no_register ignore_errors kw summary fspec s = (None, fspec1, summary1, s1)"
  shows "status_consistent fspec1"
proof -
  obtain r fspec2 s2 where t:
    "copy_out_transfer env no_register ignore_errors summary fspec s = (r, fspec2, s2)"
    by (metis surj_pair)
  with assms have r: "r = None"
    and "copy_out_summary env ignore_errors kw summary fspec2 s2 = (None, fspec1, summary1, s1)"
    by (cases r; simp add: copy_out_file_def)+
  with t copy_out_transfer_tagged [of env no_register ignore_errors summary fspec s fspec2 s2]
  show ?thesis by (auto intro: copy_out_summary_consistent)
qed

lemma copy_out_loop_consistent:
  "copy_out_loop env no_register ignore_errors kw summary files s = (None, files1, summary1, s1) \<Longrightarrow>
   \<forall>fspec\<in>set files1. status_consistent fspec"
proof (induction files arbitrary: s summary files1 summary1 s1)
  case Nil
  then show ?case by simp
next
  case (Cons f files)
  obtain r f1 v1 s2 where p:
    "copy_out_file env no_register ignore_errors kw summary f s = (r, f1, v1, s2)"
    by (metis surj_pair)
  show ?case
  proof (cases r)
    case (Some e)
    with p Cons.prems show ?thesis by simp
  next
    case None
    obtain r2 files2 v2 s3 where l:
      "copy_out_loop env no_register ignore_errors kw v1 files s2 = (r2, files2, v2, s3)"
      by (metis surj_pair)
    with p None Cons.prems have eq: "r2 = None" "files1 = f1 # files2"
      by simp_all
    from p None have "status_consistent f1"
      by (auto intro: copy_out_file_consistent)
    moreover from Cons.IH l eq have "\<forall>fspec\<in>set files2. status_consistent fspec"
      by blast
    ultimately show ?thesis using eq by simp
  qed
qed

text \<open>
  Claim C3. After \<^verbatim>\<open>copy_in\<close> or \<^verbatim>\<open>copy_out\<close> has returned normally, every record
  of the batch has a consistent status: the code is 0 exactly when the tag is
  \<^verbatim>\<open>remote_io\<close> or \<^verbatim>\<open>transferred\<close>, and a nonzero code comes with the tag
  \<^verbatim>\<open>failed\<close>. For \<^verbatim>\<open>copy_in\<close> the checksum collaborator, which writes the status
  of a record itself, has to keep its side: a nonzero code it leaves is tagged
  \<^verbatim>\<open>failed\<close>.
\<close>

theorem status_invariant:
  "(checksum_contract env \<and> copy_in env files kw w = (None, files1, s1)
      \<longrightarrow> (\<forall>fspec\<in>set files1. status_consistent fspec))
   \<and> (copy_out env files kw w = (None, files2, s2)
      \<longrightarrow> (\<forall>fspec\<in>set files2. status_consistent fspec))"
proof (intro conjI impI)
  assume "checksum_contract env \<and> copy_in env files kw w = (None, files1, s1)"
  then show "\<forall>fspec\<in>set files1. status_consistent fspec"
    unfolding copy_in_def using copy_in_loop_consistent by blast
next
  assume a: "copy_out env files kw w = (None, files2, s2)"
  obtain r fs v s where l: "copy_out_loop env (kw_no_register kw) (kw_ignore_errors kw) kw (kw_summary kw) files
             (w, [Setenv ''RUCIO_LOGGING_FORMAT'' logging_format]) = (r, fs, v, s)"
    by (metis surj_pair)
  with a have "r = None" "fs = files2" by (simp_all add: copy_out_def)
  with l show "\<forall>fspec\<in>set files2. status_consistent fspec"
    using copy_out_loop_consistent by blast
qed

theorem status_invariant_witness:
  "checksum_contract (sample_env (fail_on ''file3'') ''Details: disk full'' (\<lambda>p. p = ''./file2'') None False)
   \<and> fst (copy_in (sample_env (fail_on ''file3'') ''Details: disk full'' (\<lambda>p. p = ''./file2'') None False)
           sample_batch (default_kwargs\<lparr>kw_allow_direct_access := True, kw_ignore_errors := True\<rparr>) ()) = None
   \<and> map (\<lambda>f. (status_code f, status f))
        (fst (snd (copy_in (sample_env (fail_on ''file3'') ''Details: disk full'' (\<lambda>p. p = ''./file2'') None False)
           sample_batch (default_kwargs\<lparr>kw_allow_direct_access := True, kw_ignore_errors := True\<rparr>) ())))
       = [(0, ''remote_io''), (0, ''transferred''), (1099, ''failed'')]
   \<and> list_all status_consistent
        (fst (snd (copy_in (sample_env (fail_on ''file3'') ''Details: disk full'' (\<lambda>p. p = ''./file2'') None False)
           sample_batch (default_kwargs\<lparr>kw_allow_direct_access := True, kw_ignore_errors := True\<rparr>) ())))
   \<and> fst (copy_out (sample_env (fail_on ''file3'') ''Details: disk full'' (\<lambda>p. False) None False)
           sample_batch (default_kwargs\<lparr>kw_ignore_errors := True\<rparr>) ()) = None
   \<and> map (\<lambda>f. (status_code f, status f))
        (fst (snd (copy_out (sample_env (fail_on ''file3'') ''Details: disk full'' (\<lambda>p. False) None False)
           sample_batch (default_kwargs\<lparr>kw_ignore_errors := True\<rparr>) ())))
       = [(0, ''transferred''), (0, ''transferred''), (1137, ''failed'')]
   \<and> list_all status_consistent
        (fst (snd (copy_out (sample_env (fail_on ''file3'') ''Details: disk full'' (\<lambda>p. False) None False)
           sample_batch (default_kwargs\<lparr>kw_ignore_errors := True\<rparr>) ())))"
  (is "?c \<and> ?i1 \<and> ?i2 \<and> ?i3 \<and> ?o1 \<and> ?o2 \<and> ?o3")
proof -
  let ?E = "sample_env (fail_on ''file3'') ''Details: disk full'' (\<lambda>p. p = ''./file2'') None False"
  let ?K = "default_kwargs\<lparr>kw_allow_direct_access := True, kw_ignore_errors := True\<rparr>"
  let ?E' = "sample_env (fail_on ''file3'') ''Details: disk full'' (\<lambda>p. False) None False"
  let ?K' = "default_kwargs\<lparr>kw_ignore_errors := True\<rparr>"
  have c: ?c
    by (simp add: checksum_contract_def sample_env_def)
  have i1: ?i1 and i2: ?i2
    by (simp_all add: sample_defs copy_in_defs classifier_defs)
  have o1: ?o1 and o2: ?o2
    by (simp_all add: sample_defs copy_out_defs classifier_defs)
  obtain r fs s where e: "copy_in ?E sample_batch ?K () = (r, fs, s)"
    by (rule prod_cases3)
  from i1 e have "r = None" by simp
  with status_invariant [where env = ?E and files = sample_batch and kw = ?K and w = "()"
      and ?files1.0 = fs and ?s1.0 = s] c e
  have "\<forall>f\<in>set fs. status_consistent f" by blast
  then have i3: ?i3 by (simp add: e list_all_iff)
  obtain r' fs' s' where e': "copy_out ?E' sample_batch ?K' () = (r', fs', s')"
    by (rule prod_cases3)
  from o1 e' have "r' = None" by simp
  with status_invariant [where env = ?E' and files = sample_batch and kw = ?K' and w = "()"
      and ?files2.0 = fs' and ?s2.0 = s'] e'
  have "\<forall>f\<in>set fs'. status_consistent f" by blast
  then have o3: ?o3 by (simp add: e' list_all_iff)
  from c i1 i2 i3 o1 o2 o3 show ?thesis by blast
qed

subsection \<open>Direct access\<close>

lemma copy_in_transfer_executed:
  "copy_in_transfer env kw fspec s = (r, fspec1, s1) \<Longrightarrow>
   executed (snd s1) = executed (snd s) @ [str_join (copy_in_cmd kw fspec)]"
  by (auto simp: copy_in_transfer_def copy_in_cmd_status_code emit_def Let_def executed_append
      split: prod.splits if_splits)

lemma copy_in_verify_executed:
  "copy_in_verify env kw fspec s = (r, fspec1, s1) \<Longrightarrow> executed (snd s1) = executed (snd s)"
  by (auto simp: copy_in_verify_def emit_def Let_def executed_append
      split: prod.splits if_splits)

lemma copy_in_file_executed:
  assumes "copy_in_file env kw fspec s = (r, fspec1, s1)"
  shows "executed (snd s1) =
           executed (snd s) @ (if direct kw fspec then [] else [str_join (copy_in_cmd kw fspec)])"
proof (cases "direct kw fspec")
  case True
  with assms show ?thesis by (simp add: copy_in_file_direct)
next
  case False
  obtain r2 fspec2 s2 where t: "copy_in_transfer env kw fspec s = (r2, fspec2, s2)"
    by (rule prod_cases3)
  show ?thesis
  proof (cases r2)
    case (Some e)
    with t assms False show ?thesis
      by (auto simp: copy_in_file_not_direct dest: copy_in_transfer_executed)
  next
    case None
    with t assms False have "copy_in_verify env kw fspec2 s2 = (r, fspec1, s1)"
      by (simp add: copy_in_file_not_direct)
    from copy_in_verify_executed [OF this] copy_in_transfer_executed [OF t] False
    show ?thesis by simp
  qed
qed

lemma copy_in_loop_executed:
  "copy_in_loop env kw files s = (None, files1, s1) \<Longrightarrow>
   executed (snd s1) =
     executed (snd s) @ map (\<lambda>f. str_join (copy_in_cmd kw f)) (filter (\<lambda>f. \<not> direct kw f) files)"
proof (induction files arbitrary: s files1 s1)
  case Nil
  then show ?case by simp
next
  case (Cons f files)
  obtain r f1 s2 where p: "copy_in_file env kw f s = (r, f1, s2)"
    by (rule prod_cases3)
  show ?case
  proof (cases r)
    case (Some e)
    with p Cons.prems show ?thesis by simp
  next
    case None
    obtain r2 files2 s3 where l: "copy_in_loop env kw files s2 = (r2, files2, s3)"
      by (rule prod_cases3)
    with p None Cons.prems have eq: "r2 = None" "s1 = s3" by simp_all
    from Cons.IH [of s2 files2 s3] l eq copy_in_file_executed [OF p]
    show ?thesis by simp
  qed
qed

lemma copy_in_loop_direct:
  "copy_in_loop env kw files s = (None, files1, s1) \<Longrightarrow> i < length files \<Longrightarrow>
   direct kw (files ! i) \<Longrightarrow>
   files1 ! i = (files ! i)\<lparr>status_code := 0, status := ''remote_io''\<rparr>"
proof (induction files arbitrary: s files1 s1 i)
  case Nil
  then show ?case by simp
next
  case (Cons f files)
  obtain r f1 s2 where p: "copy_in_file env kw f s = (r, f1, s2)"
    by (rule prod_cases3)
  show ?case
  proof (cases r)
    case (Some e)
    with p Cons.prems show ?thesis by simp
  next
    case None
    obtain r2 files2 s3 where l: "copy_in_loop env kw files s2 = (r2, files2, s3)"
      by (rule prod_cases3)
    with p None Cons.prems have eq: "r2 = None" "files1 = f1 # files2" by simp_all
    show ?thesis
    proof (cases i)
      case 0
      with Cons.prems(3) p eq show ?thesis by (simp add: copy_in_file_direct)
    next
      case (Suc j)
      with Cons.prems Cons.IH [of s2 files2 s3 j] l eq show ?thesis by simp
    qed
  qed
qed

text \<open>
  Claim C6. In \<^verbatim>\<open>copy_in\<close> with the option \<^verbatim>\<open>allow_direct_access\<close> set, the pass
  over a record that supports direct access sets the status to code 0 and tag
  \<^verbatim>\<open>remote_io\<close>, raises nothing and leaves the world and the trace as they were: no
  command is executed for it. For a whole batch that returns normally, every such record
  ends with this status, and the commands executed are exactly those of the other
  records, in order.
\<close>

theorem direct_access_skips_transfer:
  assumes "kw_allow_direct_access kw"
  shows "(is_directaccess fspec \<longrightarrow>
            copy_in_file env kw fspec s =
              (None, fspec\<lparr>status_code := 0, status := ''remote_io''\<rparr>, s))
       \<and> (copy_in env files kw w = (None, files1, s1) \<longrightarrow>
            (\<forall>i<length files. is_directaccess (files ! i) \<longrightarrow>
               files1 ! i = (files ! i)\<lparr>status_code := 0, status := ''remote_io''\<rparr>)
            \<and> executed (snd s1) =
                map (\<lambda>f. str_join (copy_in_cmd kw f)) (filter (\<lambda>f. \<not> is_directaccess f) files))"
proof (intro conjI impI allI)
  assume "is_directaccess fspec"
  with assms show "copy_in_file env kw fspec s =
      (None, fspec\<lparr>status_code := 0, status := ''remote_io''\<rparr>, s)"
    by (simp add: copy_in_file_direct direct_def)
next
  fix i
  assume "copy_in env files kw w = (None, files1, s1)" "i < length files" "is_directaccess (files ! i)"
  with assms show "files1 ! i = (files ! i)\<lparr>status_code := 0, status := ''remote_io''\<rparr>"
    unfolding copy_in_def by (auto intro: copy_in_loop_direct simp: direct_def)
next
  assume "copy_in env files kw w = (None, files1, s1)"
  from copy_in_loop_executed [OF this [unfolded copy_in_def]] assms
  show "executed (snd s1) =
      map (\<lambda>f. str_join (copy_in_cmd kw f)) (filter (\<lambda>f. \<not> is_directaccess f) files)"
    by (simp add: direct_def)
qed

theorem direct_access_skips_transfer_witness:
  "kw_allow_direct_access (default_kwargs\<lparr>kw_allow_direct_access := True\<rparr>)
   \<and> is_directaccess (hd sample_batch)
   \<and> copy_in_file (sample_env (\<lambda>c. 0) [] (\<lambda>p. True) None False)
        (default_kwargs\<lparr>kw_allow_direct_access := True\<rparr>) (hd sample_batch) ((), [])
      = (None, (hd sample_batch)\<lparr>status_code := 0, status := ''remote_io''\<rparr>, ((), []))
   \<and> fst (copy_in (sample_env (\<lambda>c. 0) [] (\<lambda>p. True) None False) sample_batch
        (default_kwargs\<lparr>kw_allow_direct_access := True\<rparr>) ()) = None
   \<and> (0::nat) < length sample_batch
   \<and> fst (snd (copy_in (sample_env (\<lambda>c. 0) [] (\<lambda>p. True) None False) sample_batch
        (default_kwargs\<lparr>kw_allow_direct_access := True\<rparr>) ())) ! 0
      = (sample_batch ! 0)\<lparr>status_code := 0, status := ''remote_io''\<rparr>
   \<and> executed (snd (snd (snd (copy_in (sample_env (\<lambda>c. 0) [] (\<lambda>p. True) None False) sample_batch
        (default_kwargs\<lparr>kw_allow_direct_access := True\<rparr>) ()))))
      = [''/usr/bin/env rucio -v download --no-subdir --dir . scopeA:file2'',
         ''/usr/bin/env rucio -v download --no-subdir --dir . scopeA:file3'']"
  (is "?a \<and> ?d \<and> ?f \<and> ?n \<and> ?l \<and> ?i \<and> ?x")
proof -
  let ?E = "sample_env (\<lambda>c. 0) [] (\<lambda>p. True) None False"
  let ?K = "default_kwargs\<lparr>kw_allow_direct_access := True\<rparr>"
  have a: ?a by (simp add: default_kwargs_def)
  have d: ?d and l: ?l and d0: "is_directaccess (sample_batch ! 0)"
    by (simp_all add: sample_defs)
  have n: ?n by (simp add: sample_defs copy_in_defs classifier_defs)
  obtain r fs s where e: "copy_in ?E sample_batch ?K () = (r, fs, s)"
    by (rule prod_cases3)
  from n e have r: "r = None" by simp
  note t = direct_access_skips_transfer [OF a, where env = ?E and fspec = "hd sample_batch"
      and s = "((), [])" and files = sample_batch and w = "()" and ?files1.0 = fs and ?s1.0 = s]
  from t d have f: ?f by blast
  from t e r l d0 have i: ?i by simp
  from t e r have "executed (snd s) =
      map (\<lambda>f. str_join (copy_in_cmd ?K f)) (filter (\<lambda>f. \<not> is_directaccess f) sample_batch)"
    by simp
  then have "executed (snd s) =
      [''/usr/bin/env rucio -v download --no-subdir --dir . scopeA:file2'',
       ''/usr/bin/env rucio -v download --no-subdir --dir . scopeA:file3'']"
    by (simp add: sample_defs copy_in_cmd_def work_dir_def require_replicas_def)
  with e have x: ?x by simp
  from a d f n l i x show ?thesis by blast
qed

subsection \<open>Single passes\<close>

text \<open>
  Claim C7. In \<^verbatim>\<open>copy_in\<close>, when the command of a record exits with 0, the
  destination file exists and the checksum collaborator leaves the status code 0 (the
  digests match), the pass raises nothing and the record ends with code 0 and tag
  \<^verbatim>\<open>transferred\<close>.
\<close>

theorem download_verified_transferred:
  assumes "\<not> direct kw fspec"
      and "execute env (str_join (copy_in_cmd kw fspec)) (fst s) = ((0, out, err), w)"
      and "path_exists env (os_path_join (work_dir kw fspec) (lfn fspec)) w"
      and "verify_catalog_checksum env (fspec\<lparr>status_code := 0\<rparr>)
             (os_path_join (work_dir kw fspec) (lfn fspec)) w = ((st, diag), fspec1)"
      and "status_code fspec1 = 0"
  shows "copy_in_file env kw fspec s =
           (None, fspec1\<lparr>status_code := 0, status := ''transferred''\<rparr>,
            (w, snd s @ [Execute (str_join (copy_in_cmd kw fspec)),
                         Log INFO ''stdout = %s'' [PyStr out],
                         Log INFO ''stderr = %s'' [PyStr err]]))"
proof -
  let ?s1 = "(w, snd s @ [Execute (str_join (copy_in_cmd kw fspec)),
                         Log INFO ''stdout = %s'' [PyStr out],
                         Log INFO ''stderr = %s'' [PyStr err]])"
  from assms(1,2) have "copy_in_file env kw fspec s = copy_in_verify env kw (fspec\<lparr>status_code := 0\<rparr>) ?s1"
    by (simp add: copy_in_file_not_direct copy_in_transfer_ok)
  also from assms(3,4,5) have "\<dots> = (None, mark_transferred fspec1, ?s1)"
    by (simp add: copy_in_verify_present work_dir_status)
  finally show ?thesis using assms(5) by (simp add: mark_transferred_def)
qed

theorem download_verified_transferred_witness:
  "\<not> direct default_kwargs (sample_file ''file2'')
   \<and> execute (sample_env (\<lambda>c. 0) [] (\<lambda>p. p = ''./file2'') None False)
        (str_join (copy_in_cmd default_kwargs (sample_file ''file2''))) () = ((0, [], []), ())
   \<and> path_exists (sample_env (\<lambda>c. 0) [] (\<lambda>p. p = ''./file2'') None False)
        (os_path_join (work_dir default_kwargs (sample_file ''file2'')) (lfn (sample_file ''file2''))) ()
   \<and> status_code (snd (verify_catalog_checksum (sample_env (\<lambda>c. 0) [] (\<lambda>p. p = ''./file2'') None False)
        ((sample_file ''file2'')\<lparr>status_code := 0\<rparr>) ''./file2'' ())) = 0
   \<and> copy_in_file (sample_env (\<lambda>c. 0) [] (\<lambda>p. p = ''./file2'') None False) default_kwargs
        (sample_file ''file2'') ((), [])
      = (None, (sample_file ''file2'')\<lparr>status_code := 0, status := ''transferred''\<rparr>,
         ((), [Execute ''/usr/bin/env rucio -v download --no-subdir --dir . scopeA:file2'',
               Log INFO ''stdout = %s'' [PyStr []],
               Log INFO ''stderr = %s'' [PyStr []]]))"
  (is "?a \<and> ?b \<and> ?c \<and> ?d \<and> ?e")
proof -
  let ?E = "sample_env (\<lambda>c. 0) [] (\<lambda>p. p = ''./file2'') None False"
  have a: ?a by (simp add: direct_def sample_defs)
  have b: "execute ?E (str_join (copy_in_cmd default_kwargs (sample_file ''file2''))) (fst ((), []))
             = ((0, [], []), ())"
    by (simp add: sample_env_def)
  have c: ?c
    by (simp add: sample_defs work_dir_def os_path_join_def startswith_def)
  have v: "verify_catalog_checksum ?E ((sample_file ''file2'')\<lparr>status_code := 0\<rparr>)
             (os_path_join (work_dir default_kwargs (sample_file ''file2'')) (lfn (sample_file ''file2''))) ()
           = (([], []), (sample_file ''file2'')\<lparr>status_code := 0\<rparr>)"
    by (simp add: sample_env_def)
  have z: "status_code ((sample_file ''file2'')\<lparr>status_code := 0\<rparr>) = 0" by simp
  have d: ?d by (simp add: sample_env_def)
  from download_verified_transferred [OF a b c v z]
  have e: ?e
    by (simp add: sample_defs copy_in_cmd_def work_dir_def require_replicas_def)
  from a b c d e show ?thesis by simp
qed

text \<open>
  Claim C10. A missing artifact is not fatal. In \<^verbatim>\<open>copy_in\<close>, when the command exits
  with 0 and the destination file does not exist, the pass raises nothing, logs one
  warning and the record ends as a successful one (code 0 as set before the command,
  tag \<^verbatim>\<open>transferred\<close>); in general the check of a missing file leaves the status code
  as it found it. In \<^verbatim>\<open>copy_out\<close> with the summary requested, when the summary file does
  not exist the pass raises nothing, logs one error, opens no file and leaves the
  \<^verbatim>\<open>turl\<close>, the status code and the checksums of the record as they were.
\<close>

theorem missing_artifacts_not_fatal:
  "(\<not> direct kw fspec
      \<and> execute env (str_join (copy_in_cmd kw fspec)) (fst s) = ((0, out, err), w)
      \<and> \<not> path_exists env (os_path_join (work_dir kw fspec) (lfn fspec)) w
      \<longrightarrow> copy_in_file env kw fspec s =
            (None, fspec\<lparr>status_code := 0, status := ''transferred''\<rparr>,
             (w, snd s @ [Execute (str_join (copy_in_cmd kw fspec)),
                          Log INFO ''stdout = %s'' [PyStr out],
                          Log INFO ''stderr = %s'' [PyStr err],
                          Log WARNING ''wrong path: %s''
                            [PyStr (os_path_join (work_dir kw fspec) (lfn fspec))]])))
   \<and> (\<not> path_exists env (os_path_join (work_dir kw fspec) (lfn fspec)) (fst s)
      \<longrightarrow> fst (copy_in_verify env kw fspec s) = None
          \<and> status_code (fst (snd (copy_in_verify env kw fspec s))) = status_code fspec)
   \<and> (truthy summary
      \<and> \<not> path_exists env (os_path_join (work_dir kw fspec) ''rucio_upload.json'') (fst s)
      \<longrightarrow> copy_out_summary env ignore_errors kw summary fspec s =
            (None, mark_transferred fspec, summary,
             (fst s, snd s @ [Log ERROR ''Failed to resolve Rucio summary JSON, wrong path? file=%s''
                                [PyStr (os_path_join (work_dir kw fspec) ''rucio_upload.json'')]]))
          \<and> turl (mark_transferred fspec) = turl fspec
          \<and> status_code (mark_transferred fspec) = status_code fspec
          \<and> checksum (mark_transferred fspec) = checksum fspec)"
proof (intro conjI impI)
  assume a: "\<not> direct kw fspec
      \<and> execute env (str_join (copy_in_cmd kw fspec)) (fst s) = ((0, out, err), w)
      \<and> \<not> path_exists env (os_path_join (work_dir kw fspec) (lfn fspec)) w"
  let ?s1 = "(w, snd s @ [Execute (str_join (copy_in_cmd kw fspec)),
                         Log INFO ''stdout = %s'' [PyStr out],
                         Log INFO ''stderr = %s'' [PyStr err]])"
  from a have "copy_in_file env kw fspec s = copy_in_verify env kw (fspec\<lparr>status_code := 0\<rparr>) ?s1"
    by (simp add: copy_in_file_not_direct copy_in_transfer_ok)
  also from a have "\<dots> = (None, mark_transferred (fspec\<lparr>status_code := 0\<rparr>),
      (w, snd ?s1 @ [Log WARNING ''wrong path: %s''
                            [PyStr (os_path_join (work_dir kw fspec) (lfn fspec))]]))"
    by (simp add: copy_in_verify_missing work_dir_status)
  finally show "copy_in_file env kw fspec s =
            (None, fspec\<lparr>status_code := 0, status := ''transferred''\<rparr>,
             (w, snd s @ [Execute (str_join (copy_in_cmd kw fspec)),
                          Log INFO ''stdout = %s'' [PyStr out],
                          Log INFO ''stderr = %s'' [PyStr err],
                          Log WARNING ''wrong path: %s''
                            [PyStr (os_path_join (work_dir kw fspec) (lfn fspec))]]))"
    by (simp add: mark_transferred_def)
next
  assume "\<not> path_exists env (os_path_join (work_dir kw fspec) (lfn fspec)) (fst s)"
  then show "fst (copy_in_verify env kw fspec s) = None"
    and "status_code (fst (snd (copy_in_verify env kw fspec s))) = status_code fspec"
    by (simp_all add: copy_in_verify_missing mark_transferred_fields)
next
  assume "truthy summary
      \<and> \<not> path_exists env (os_path_join (work_dir kw fspec) ''rucio_upload.json'') (fst s)"
  then show "copy_out_summary env ignore_errors kw summary fspec s =
            (None, mark_transferred fspec, summary,
             (fst s, snd s @ [Log ERROR ''Failed to resolve Rucio summary JSON, wrong path? file=%s''
                                [PyStr (os_path_join (work_dir kw fspec) ''rucio_upload.json'')]]))"
    by (simp add: copy_out_summary_def emit_def)
next
  show "turl (mark_transferred fspec) = turl fspec"
    and "status_code (mark_transferred fspec) = status_code fspec"
    and "checksum (mark_transferred fspec) = checksum fspec"
    by (simp_all add: mark_transferred_fields)
qed

theorem missing_artifacts_not_fatal_witness:
  "\<not> direct default_kwargs (sample_file ''file2'')
   \<and> execute (sample_env (\<lambda>c. 0) [] (\<lambda>p. False) None False)
        (str_join (copy_in_cmd default_kwargs (sample_file ''file2''))) () = ((0, [], []), ())
   \<and> \<not> path_exists (sample_env (\<lambda>c. 0) [] (\<lambda>p. False) None False) ''./file2'' ()
   \<and> copy_in_file (sample_env (\<lambda>c. 0) [] (\<lambda>p. False) None False) default_kwargs
        (sample_file ''file2'') ((), [])
      = (None, (sample_file ''file2'')\<lparr>status_code := 0, status := ''transferred''\<rparr>,
         ((), [Execute ''/usr/bin/env rucio -v download --no-subdir --dir . scopeA:file2'',
               Log INFO ''stdout = %s'' [PyStr []],
               Log INFO ''stderr = %s'' [PyStr []],
               Log WARNING ''wrong path: %s'' [PyStr ''./file2'']]))
   \<and> fst (copy_in_verify (sample_env (\<lambda>c. 0) [] (\<lambda>p. False) None False) default_kwargs
        ((sample_file ''file2'')\<lparr>status_code := 1099, status := ''failed''\<rparr>) ((), [])) = None
   \<and> status_code (fst (snd (copy_in_verify (sample_env (\<lambda>c. 0) [] (\<lambda>p. False) None False)
        default_kwargs ((sample_file ''file2'')\<lparr>status_code := 1099, status := ''failed''\<rparr>) ((), []))))
      = 1099
   \<and> truthy (PyBool True)
   \<and> \<not> path_exists (sample_env (\<lambda>c. 0) [] (\<lambda>p. False) None False) ''./rucio_upload.json'' ()
   \<and> copy_out_summary (sample_env (\<lambda>c. 0) [] (\<lambda>p. False) None False) False default_kwargs
        (PyBool True) ((sample_file ''file2'')\<lparr>turl := PyStr ''https://x/file2''\<rparr>) ((), [])
      = (None, (sample_file ''file2'')\<lparr>turl := PyStr ''https://x/file2'', status := ''transferred''\<rparr>,
         PyBool True,
         ((), [Log ERROR ''Failed to resolve Rucio summary JSON, wrong path? file=%s''
                 [PyStr ''./rucio_upload.json'']]))"
  (is "?a \<and> ?b \<and> ?c \<and> ?d \<and> ?e \<and> ?f \<and> ?g \<and> ?h \<and> ?i")
proof -
  let ?E = "sample_env (\<lambda>c. 0) [] (\<lambda>p. False) None False"
  let ?F = "(sample_file ''file2'')\<lparr>status_code := 1099, status := ''failed''\<rparr>"
  let ?G = "(sample_file ''file2'')\<lparr>turl := PyStr ''https://x/file2''\<rparr>"
  have a: ?a by (simp add: direct_def sample_defs)
  have b: ?b and c: ?c and h: ?h and g: ?g by (simp_all add: sample_env_def)
  have p: "\<not> path_exists ?E x ()" for x by (simp add: sample_env_def)
  have b': "execute ?E (str_join (copy_in_cmd default_kwargs (sample_file ''file2''))) (fst ((), []))
      = ((0, [], []), ())"
    using b by simp
  from missing_artifacts_not_fatal [where env = ?E and kw = default_kwargs
      and fspec = "sample_file ''file2''" and s = "((), [])" and out = "[]" and err = "[]" and w = "()"]
    a b' p
  have d: ?d
    by (simp add: sample_defs copy_in_cmd_def work_dir_def require_replicas_def os_path_join_def
        startswith_def)
  from missing_artifacts_not_fatal [where env = ?E and kw = default_kwargs
      and fspec = ?F and s = "((), [])"] p
  have e: ?e and f: ?f by simp_all
  from missing_artifacts_not_fatal [where env = ?E and kw = default_kwargs and summary = "PyBool True"
      and fspec = ?G and s = "((), [])" and ignore_errors = False] p
  have i: ?i
    by (simp add: sample_defs work_dir_def os_path_join_def startswith_def mark_transferred_def)
  from a b c d e f g h i show ?thesis by blast
qed

subsection \<open>The summary of an upload\<close>

lemma copy_out_summary_present:
  assumes "truthy summary"
      and "path_exists env (os_path_join (work_dir kw fspec) ''rucio_upload.json'') (fst s)"
      and "json_load env (os_path_join (work_dir kw fspec) ''rucio_upload.json'') (fst s) = Some summary1"
      and "check_summary (codes env) ignore_errors summary1 fspec
             (fst s, snd s @ [JsonLoad (os_path_join (work_dir kw fspec) ''rucio_upload.json'')])
           = (r, fspec1, s1)"
  shows "copy_out_summary env ignore_errors kw summary fspec s =
           (r, (if r = None then mark_transferred fspec1 else fspec1), summary1, s1)"
  using assms by (cases r) (simp_all add: copy_out_summary_def emit_def)




subsection \<open>The summary variable across the batch\<close>

lemma copy_out_cmd_error:
  "copy_out_cmd no_register summary fspec = Inl e \<Longrightarrow> e = TypeError"
  by (auto simp: copy_out_cmd_def Let_def split: if_splits pyval.splits)

lemma copy_out_transfer_keeps:
  assumes "copy_out_transfer env no_register ignore_errors summary fspec s = (r, fspec1, s1)"
  shows "turl fspec1 = turl fspec \<and> work_dir kw fspec1 = work_dir kw fspec
       \<and> json_loads (snd s1) = json_loads (snd s)
       \<and> r \<noteq> Some (PilotException m c ''AD_MISMATCH'')"
  using assms
  by (auto simp: copy_out_transfer_def Let_def emit_def work_dir_def json_loads_append state_resolve
      split: sum.splits prod.splits if_splits dest: copy_out_cmd_error)

lemma copy_out_file_unrequested:
  assumes "\<not> truthy summary"
      and "copy_out_file env no_register ignore_errors kw summary fspec s = (r, fspec1, summary1, s1)"
  shows "summary1 = summary \<and> turl fspec1 = turl fspec
       \<and> json_loads (snd s1) = json_loads (snd s)
       \<and> r \<noteq> Some (PilotException m c ''AD_MISMATCH'')"
proof -
  obtain r2 fspec2 s2 where t:
    "copy_out_transfer env no_register ignore_errors summary fspec s = (r2, fspec2, s2)"
    by (rule prod_cases3)
  note k = copy_out_transfer_keeps [OF t, where kw = kw and m = m and c = c]
  show ?thesis
  proof (cases r2)
    case (Some e)
    with t assms(2) k show ?thesis
      by (auto simp: copy_out_file_def)
  next
    case None
    with t assms have "r = None" "fspec1 = mark_transferred fspec2" "summary1 = summary" "s1 = s2"
      by (simp_all add: copy_out_file_def copy_out_summary_def)
    with k show ?thesis by (simp add: mark_transferred_fields)
  qed
qed

lemma copy_out_loop_unrequested:
  "\<not> truthy summary \<Longrightarrow>
   copy_out_loop env no_register ignore_errors kw summary files s = (r, files1, summary1, s1) \<Longrightarrow>
   summary1 = summary \<and> map turl files1 = map turl files
   \<and> json_loads (snd s1) = json_loads (snd s)
   \<and> r \<noteq> Some (PilotException m c ''AD_MISMATCH'')"
proof (induction files arbitrary: s r files1 summary1 s1)
  case Nil
  then show ?case by simp
next
  case (Cons f files)
  obtain r2 f2 v2 s2 where p:
    "copy_out_file env no_register ignore_errors kw summary f s = (r2, f2, v2, s2)"
    by (metis surj_pair)
  note u = copy_out_file_unrequested [OF Cons.prems(1) p, of m c]
  show ?case
  proof (cases r2)
    case (Some e)
    with p Cons.prems(2) u show ?thesis by auto
  next
    case None
    obtain r3 files3 v3 s3 where l:
      "copy_out_loop env no_register ignore_errors kw summary files s2 = (r3, files3, v3, s3)"
      by (metis surj_pair)
    with p None Cons.prems(2) u
    have eq: "r = r3" "files1 = f2 # files3" "summary1 = v3" "s1 = s3"
      by simp_all
    from Cons.IH [OF Cons.prems(1) l] u eq show ?thesis by simp
  qed
qed

text \<open>
  Claim C2. In \<^verbatim>\<open>copy_out\<close> the statement \<^verbatim>\<open>summary = json.load(f)\<close> rebinds the
  variable that holds the option. When the pass over a record runs with the summary
  requested, its command does not end the batch, and its summary file exists and parses
  to the empty object, then the variable is the empty object from there on: for all the
  records after it no file is opened for \<^verbatim>\<open>json.load\<close> (the one opened for this record
  is the last), their \<^verbatim>\<open>turl\<close> is left as it was, and the batch cannot end with the
  exception of the digest comparison.
\<close>

theorem summary_rebound_to_parsed_file:
  assumes "truthy summary"
      and "copy_out_transfer env no_register ignore_errors summary fspec s = (None, fspec1, s1)"
      and "path_exists env (os_path_join (work_dir kw fspec) ''rucio_upload.json'') (fst s1)"
      and "json_load env (os_path_join (work_dir kw fspec) ''rucio_upload.json'') (fst s1)
             = Some (PyDict [])"
      and "copy_out_loop env no_register ignore_errors kw summary (fspec # files) s
             = (r, files1, summary1, s2)"
  shows "summary1 = PyDict [] \<and> \<not> truthy summary1
       \<and> map turl (tl files1) = map turl files
       \<and> json_loads (snd s2) =
           json_loads (snd s) @ [os_path_join (work_dir kw fspec) ''rucio_upload.json'']
       \<and> (\<forall>m c. r \<noteq> Some (PilotException m c ''AD_MISMATCH''))"
proof -
  let ?path = "os_path_join (work_dir kw fspec) ''rucio_upload.json''"
  note k = copy_out_transfer_keeps [OF assms(2), where kw = kw]
  from assms(3,4) k
  have p: "path_exists env (os_path_join (work_dir kw fspec1) ''rucio_upload.json'') (fst s1)"
    and j: "json_load env (os_path_join (work_dir kw fspec1) ''rucio_upload.json'') (fst s1)
              = Some (PyDict [])"
    by simp_all
  have c: "check_summary (codes env) ignore_errors (PyDict []) fspec1
             (fst s1, snd s1 @ [JsonLoad (os_path_join (work_dir kw fspec1) ''rucio_upload.json'')])
           = (None, fspec1\<lparr>turl := PyNone\<rparr>, (fst s1, snd s1 @ [JsonLoad ?path]))"
    using k by (simp add: check_summary_empty)
  from copy_out_summary_present [OF assms(1) p j c] assms(2)
  have f: "copy_out_file env no_register ignore_errors kw summary fspec s =
      (None, mark_transferred (fspec1\<lparr>turl := PyNone\<rparr>), PyDict [],
       (fst s1, snd s1 @ [JsonLoad ?path]))"
    by (simp add: copy_out_file_def)
  obtain r3 files3 v3 s3 where l:
    "copy_out_loop env no_register ignore_errors kw (PyDict []) files
       (fst s1, snd s1 @ [JsonLoad ?path]) = (r3, files3, v3, s3)"
    by (metis surj_pair)
  with f assms(5)
  have eq: "r = r3" "files1 = mark_transferred (fspec1\<lparr>turl := PyNone\<rparr>) # files3"
    "summary1 = v3" "s2 = s3"
    by simp_all
  have "\<not> truthy (PyDict [])" by simp
  from copy_out_loop_unrequested [OF this l] eq k
  show ?thesis by (simp add: json_loads_append)
qed

theorem summary_rebound_to_parsed_file_witness:
  "truthy (PyBool True)
   \<and> copy_out_transfer (sample_env (\<lambda>c. 0) [] (\<lambda>p. True) (Some (PyDict [])) False)
        False False (PyBool True) (sample_file ''file1'') ((), [])
      = (None, (sample_file ''file1'')\<lparr>status_code := 0\<rparr>,
         ((), [Execute (str_join (sample_upload ''file1'')),
               Log INFO ''stdout = %s'' [PyStr []],
               Log INFO ''stderr = %s'' [PyStr []]]))
   \<and> path_exists (sample_env (\<lambda>c. 0) [] (\<lambda>p. True) (Some (PyDict [])) False)
        ''./rucio_upload.json'' ()
   \<and> json_load (sample_env (\<lambda>c. 0) [] (\<lambda>p. True) (Some (PyDict [])) False)
        ''./rucio_upload.json'' () = Some (PyDict [])
   \<and> fst (snd (snd (copy_out_loop (sample_env (\<lambda>c. 0) [] (\<lambda>p. True) (Some (PyDict [])) False)
        False False default_kwargs (PyBool True)
        [sample_file ''file1'', (sample_file ''file2'')\<lparr>turl := PyStr ''https://fixed/file2''\<rparr>]
        ((), [])))) = PyDict []
   \<and> map turl (tl (fst (snd (copy_out_loop (sample_env (\<lambda>c. 0) [] (\<lambda>p. True) (Some (PyDict [])) False)
        False False default_kwargs (PyBool True)
        [sample_file ''file1'', (sample_file ''file2'')\<lparr>turl := PyStr ''https://fixed/file2''\<rparr>]
        ((), []))))) = [PyStr ''https://fixed/file2'']
   \<and> json_loads (snd (snd (snd (snd (copy_out_loop
        (sample_env (\<lambda>c. 0) [] (\<lambda>p. True) (Some (PyDict [])) False)
        False False default_kwargs (PyBool True)
        [sample_file ''file1'', (sample_file ''file2'')\<lparr>turl := PyStr ''https://fixed/file2''\<rparr>]
        ((), [])))))) = [''./rucio_upload.json'']"
  (is "?a \<and> ?b \<and> ?c \<and> ?d \<and> ?e \<and> ?f \<and> ?g")
proof -
  let ?E = "sample_env (\<lambda>c. 0) [] (\<lambda>p. True) (Some (PyDict [])) False"
  let ?F = "sample_file ''file1''"
  let ?G = "(sample_file ''file2'')\<lparr>turl := PyStr ''https://fixed/file2''\<rparr>"
  have a: ?a by simp
  have b: ?b
    by (simp add: sample_defs copy_out_transfer_def copy_out_cmd_def emit_def)
  have wd: "os_path_join (work_dir default_kwargs ?F) ''rucio_upload.json'' = ''./rucio_upload.json''"
    by (simp add: sample_defs work_dir_def os_path_join_def startswith_def)
  have c: "path_exists ?E x y" and d: "json_load ?E x y = Some (PyDict [])" for x y
    by (simp_all add: sample_env_def)
  obtain r fs v s where l:
    "copy_out_loop ?E False False default_kwargs (PyBool True) [?F, ?G] ((), []) = (r, fs, v, s)"
    by (metis surj_pair)
  from summary_rebound_to_parsed_file [OF a b c d l]
  have "v = PyDict []" and "map turl (tl fs) = [PyStr ''https://fixed/file2'']"
    and "json_loads (snd s) = [''./rucio_upload.json'']"
    by (simp_all add: wd)
  with l have e: ?e and f: ?f and g: ?g by simp_all
  from a b c d e f g show ?thesis by blast
qed

subsection \<open>Failures in a batch\<close>

lemma copy_out_loop_append:
  "copy_out_loop env no_register ignore_errors kw summary (xs @ ys) s =
     (case copy_out_loop env no_register ignore_errors kw summary xs s of
        (Some e, xs1, summary1, s1) \<Rightarrow> (Some e, xs1 @ ys, summary1, s1)
      | (None, xs1, summary1, s1) \<Rightarrow>
          (case copy_out_loop env no_register ignore_errors kw summary1 ys s1 of
             (r, ys1, summary2, s2) \<Rightarrow> (r, xs1 @ ys1, summary2, s2)))"
  by (induction xs arbitrary: s summary) (auto split: prod.splits option.splits)

lemma copy_out_loop_length:
  "copy_out_loop env no_register ignore_errors kw summary files s = (r, files1, summary1, s1) \<Longrightarrow>
   length files1 = length files"
  by (induction files arbitrary: s summary r files1 summary1 s1)
     (auto split: prod.splits option.splits)

text \<open>With \<^verbatim>\<open>ignore_errors\<close>, \<^verbatim>\<open>copy_in\<close> raises nothing.\<close>

lemma copy_in_transfer_ignore:
  "kw_ignore_errors kw \<Longrightarrow> fst (copy_in_transfer env kw fspec s) = None"
  by (simp add: copy_in_transfer_def Let_def split: prod.splits)

lemma copy_in_verify_ignore:
  "kw_ignore_errors kw \<Longrightarrow> fst (copy_in_verify env kw fspec s) = None"
  by (simp add: copy_in_verify_def Let_def split: prod.splits)

lemma copy_in_file_ignore:
  "kw_ignore_errors kw \<Longrightarrow> fst (copy_in_file env kw fspec s) = None"
  using copy_in_transfer_ignore [of kw env fspec s]
  by (auto simp: copy_in_file_def copy_in_verify_ignore split: prod.splits option.splits)

lemma copy_in_loop_ignore:
  "kw_ignore_errors kw \<Longrightarrow> fst (copy_in_loop env kw files s) = None"
proof (induction files arbitrary: s)
  case Nil
  show ?case by simp
next
  case (Cons f files)
  obtain r f1 s1 where p: "copy_in_file env kw f s = (r, f1, s1)"
    by (rule prod_cases3)
  with copy_in_file_ignore [OF Cons.prems, of env f s] have r: "r = None" by simp
  obtain r2 files2 s2 where l: "copy_in_loop env kw files s1 = (r2, files2, s2)"
    by (rule prod_cases3)
  with Cons.IH [OF Cons.prems, of s1] have "r2 = None" by simp
  with p r l show ?case by simp
qed

text \<open>With \<^verbatim>\<open>ignore_errors\<close>, \<^verbatim>\<open>copy_out\<close> raises no \<^verbatim>\<open>PilotException\<close>.\<close>

lemma check_summary_ignore:
  "check_summary ec True summary fspec s = (r, fspec1, s1) \<Longrightarrow>
   r \<noteq> Some (PilotException m c st) \<and> executed (snd s1) = executed (snd s)"
  by (auto simp: check_summary_def Let_def emit_def executed_append
      split: sum.splits if_splits elim: py_get.elims)

lemma copy_out_summary_ignore:
  "copy_out_summary env True kw summary fspec s = (r, fspec1, summary1, s1) \<Longrightarrow>
   r \<noteq> Some (PilotException m c st) \<and> executed (snd s1) = executed (snd s)"
  by (auto simp: copy_out_summary_def Let_def emit_def executed_append
      split: if_splits option.splits prod.splits dest: check_summary_ignore)

lemma copy_out_transfer_ignore:
  "copy_out_transfer env no_register True summary fspec s = (r, fspec1, s1) \<Longrightarrow>
   r \<noteq> Some (PilotException m c st)
   \<and> (r = None \<longrightarrow> length (executed (snd s1)) = Suc (length (executed (snd s))))"
  by (auto simp: copy_out_transfer_def Let_def emit_def executed_append
      split: sum.splits prod.splits if_splits dest: copy_out_cmd_error)

lemma copy_out_file_ignore:
  assumes "copy_out_file env no_register True kw summary fspec s = (r, fspec1, summary1, s1)"
  shows "r \<noteq> Some (PilotException m c st)
       \<and> (r = None \<longrightarrow> length (executed (snd s1)) = Suc (length (executed (snd s))))"
proof -
  obtain r2 fspec2 s2 where t:
    "copy_out_transfer env no_register True summary fspec s = (r2, fspec2, s2)"
    by (rule prod_cases3)
  note i = copy_out_transfer_ignore [OF t, of m c st]
  show ?thesis
  proof (cases r2)
    case (Some e)
    with t assms i show ?thesis by (auto simp: copy_out_file_def)
  next
    case None
    with t assms have "copy_out_summary env True kw summary fspec2 s2 = (r, fspec1, summary1, s1)"
      by (simp add: copy_out_file_def)
    from copy_out_summary_ignore [OF this, of m c st] i None show ?thesis by simp
  qed
qed

lemma copy_out_loop_ignore:
  "copy_out_loop env no_register True kw summary files s = (r, files1, summary1, s1) \<Longrightarrow>
   r \<noteq> Some (PilotException m c st)
   \<and> (r = None \<longrightarrow> length (executed (snd s1)) = length (executed (snd s)) + length files)"
proof (induction files arbitrary: s summary r files1 summary1 s1)
  case Nil
  then show ?case by simp
next
  case (Cons f files)
  obtain r2 f2 v2 s2 where p:
    "copy_out_file env no_register True kw summary f s = (r2, f2, v2, s2)"
    by (metis surj_pair)
  note i = copy_out_file_ignore [OF p, of m c st]
  show ?case
  proof (cases r2)
    case (Some e)
    with p Cons.prems i show ?thesis by auto
  next
    case None
    obtain r3 files3 v3 s3 where l:
      "copy_out_loop env no_register True kw v2 files s2 = (r3, files3, v3, s3)"
      by (metis surj_pair)
    with p None Cons.prems have eq: "r = r3" "s1 = s3" by simp_all
    from Cons.IH [OF l] i None eq show ?thesis by simp
  qed
qed

subsection \<open>The status after a failed command\<close>

lemma check_summary_status:
  "check_summary ec ignore_errors summary fspec s = (r, fspec1, s1) \<Longrightarrow>
   (status_code fspec1 = status_code fspec \<and> status fspec1 = status fspec)
   \<or> (status_code fspec1 = PUTADMISMATCH ec \<and> status fspec1 = ''failed'')"
  by (auto simp: check_summary_def Let_def split: sum.splits if_splits)

lemma copy_out_summary_status:
  assumes "copy_out_summary env ignore_errors kw summary fspec s = (None, fspec1, summary1, s1)"
      and "status fspec = ''failed''" and "status_code fspec \<noteq> 0"
      and "PUTADMISMATCH (codes env) \<noteq> 0"
  shows "status fspec1 = ''failed''
       \<and> (status_code fspec1 = status_code fspec \<or> status_code fspec1 = PUTADMISMATCH (codes env))"
proof (cases "truthy summary
    \<and> path_exists env (os_path_join (work_dir kw fspec) ''rucio_upload.json'') (fst s)")
  case False
  with assms(1) have "fspec1 = mark_transferred fspec"
    by (auto simp: copy_out_summary_def Let_def split: if_splits)
  with assms(2,3) show ?thesis by (simp add: mark_transferred_def)
next
  case True
  define s0 where "s0 = emit [JsonLoad (os_path_join (work_dir kw fspec) ''rucio_upload.json'')] s"
  from True assms(1) obtain summary2 where
    j: "json_load env (os_path_join (work_dir kw fspec) ''rucio_upload.json'') (fst s) = Some summary2"
    by (cases "json_load env (os_path_join (work_dir kw fspec) ''rucio_upload.json'') (fst s)")
       (simp_all add: copy_out_summary_def)
  obtain r fspec2 s2 where c:
    "check_summary (codes env) ignore_errors summary2 fspec s0 = (r, fspec2, s2)"
    by (rule prod_cases3)
  with True j assms(1) have "fspec1 = mark_transferred fspec2"
    by (cases r) (simp_all add: copy_out_summary_def s0_def)
  with check_summary_status [OF c] assms(2,3,4) show ?thesis
    by (auto simp: mark_transferred_def)
qed

text \<open>
  Claim C5, as the code has it. When the command of a record exits with a nonzero code,
  the first part of the pass sets the status of the record to the code the classifier
  gives for the direction and the text on the standard error, with the tag
  \<^verbatim>\<open>failed\<close>. Without \<^verbatim>\<open>ignore_errors\<close> the batch ends there with a
  \<^verbatim>\<open>PilotException\<close> that carries the message, the code and the state of the
  classifier, and this status is the final one. With \<^verbatim>\<open>ignore_errors\<close> the pass goes
  on and the code can be replaced. In \<^verbatim>\<open>copy_in\<close> the final status is the classifier's
  (a nonzero code) when the destination file does not exist, and otherwise the one the
  checksum collaborator leaves on the record so marked. In \<^verbatim>\<open>copy_out\<close> (all codes
  nonzero) the final tag is \<^verbatim>\<open>failed\<close> and the final code is the classifier's or
  \<^verbatim>\<open>PUTADMISMATCH\<close>; it is the classifier's when the summary is not requested or
  its file does not exist.
\<close>

theorem failed_transfer_classified:
  "(\<not> direct kw fspec
      \<and> execute env (str_join (copy_in_cmd kw fspec)) (fst s) = ((rc, out, err), w) \<and> rc \<noteq> 0
      \<longrightarrow> (let e = resolve_transfer_error (codes env) err True;
               fspec1 = fspec\<lparr>status_code := rcode e, status := ''failed''\<rparr>;
               s1 = (w, snd s @ [Execute (str_join (copy_in_cmd kw fspec)),
                                 Log INFO ''stdout = %s'' [PyStr out],
                                 Log INFO ''stderr = %s'' [PyStr err]]);
               destination = os_path_join (work_dir kw fspec) (lfn fspec)
           in copy_in_transfer env kw fspec s =
                ((if kw_ignore_errors kw then None
                  else Some (PilotException (error e) (rcode e) (state e))), fspec1, s1)
              \<and> (if \<not> kw_ignore_errors kw then
                    copy_in_loop env kw (fspec # files) s =
                      (Some (PilotException (error e) (rcode e) (state e)), fspec1 # files, s1)
                  else if path_exists env destination w then
                    copy_in_file env kw fspec s =
                      (None,
                       mark_transferred (snd (verify_catalog_checksum env fspec1 destination w)),
                       s1)
                  else
                    copy_in_file env kw fspec s =
                      (None, mark_transferred fspec1,
                       (w, snd s1 @ [Log WARNING ''wrong path: %s'' [PyStr destination]]))
                    \<and> (rcode e \<noteq> 0 \<longrightarrow> mark_transferred fspec1 = fspec1))))
   \<and> (copy_out_cmd no_register summary fspec = Inr cmdl
      \<and> execute env (str_join cmdl) (fst s) = ((rc, out, err), w) \<and> rc \<noteq> 0
      \<longrightarrow> (let e = resolve_transfer_error (codes env) err False;
               fspec1 = fspec\<lparr>status_code := rcode e, status := ''failed''\<rparr>;
               s1 = (w, snd s @ [Execute (str_join cmdl),
                                 Log INFO ''stdout = %s'' [PyStr out],
                                 Log INFO ''stderr = %s'' [PyStr err]]);
               path = os_path_join (work_dir kw fspec) ''rucio_upload.json''
           in copy_out_transfer env no_register ignore_errors summary fspec s =
                ((if ignore_errors then None
                  else Some (PilotException (error e) (rcode e) (state e))), fspec1, s1)
              \<and> (if \<not> ignore_errors then
                    copy_out_loop env no_register ignore_errors kw summary (fspec # files) s =
                      (Some (PilotException (error e) (rcode e) (state e)), fspec1 # files,
                       summary, s1)
                  else
                    (rcode e \<noteq> 0 \<and> (\<not> truthy summary \<or> \<not> path_exists env path w)
                       \<longrightarrow> fst (copy_out_file env no_register ignore_errors kw summary fspec s) = None
                         \<and> fst (snd (copy_out_file env no_register ignore_errors kw summary fspec s))
                            = fspec1)
                    \<and> (rcode e \<noteq> 0 \<and> PUTADMISMATCH (codes env) \<noteq> 0
                       \<and> fst (copy_out_file env no_register ignore_errors kw summary fspec s) = None
                       \<longrightarrow> status (fst (snd (copy_out_file env no_register ignore_errors kw
                                                summary fspec s))) = ''failed''
                         \<and> (status_code (fst (snd (copy_out_file env no_register ignore_errors kw
                                                     summary fspec s))) = rcode e
                            \<or> status_code (fst (snd (copy_out_file env no_register ignore_errors kw
                                                     summary fspec s)))
                               = PUTADMISMATCH (codes env))))))"
proof (intro conjI impI)
  assume a: "\<not> direct kw fspec
      \<and> execute env (str_join (copy_in_cmd kw fspec)) (fst s) = ((rc, out, err), w) \<and> rc \<noteq> 0"
  define e where "e = resolve_transfer_error (codes env) err True"
  define fspec1 where "fspec1 = fspec\<lparr>status_code := rcode e, status := ''failed''\<rparr>"
  define s1 where "s1 = (w, snd s @ [Execute (str_join (copy_in_cmd kw fspec)),
                                 Log INFO ''stdout = %s'' [PyStr out],
                                 Log INFO ''stderr = %s'' [PyStr err]])"
  define destination where "destination = os_path_join (work_dir kw fspec) (lfn fspec)"
  from a have t: "copy_in_transfer env kw fspec s =
                ((if kw_ignore_errors kw then None
                  else Some (PilotException (error e) (rcode e) (state e))), fspec1, s1)"
    by (simp add: copy_in_transfer_failed e_def fspec1_def s1_def)
  have d: "os_path_join (work_dir kw fspec1) (lfn fspec1) = destination"
    by (simp add: fspec1_def destination_def work_dir_def)
  have f: "fst s1 = w" by (simp add: s1_def)
  have 1: "copy_in_loop env kw (fspec # files) s =
             (Some (PilotException (error e) (rcode e) (state e)), fspec1 # files, s1)"
    if "\<not> kw_ignore_errors kw"
    using that a t by (simp add: copy_in_file_not_direct)
  have 2: "copy_in_file env kw fspec s =
             (None, mark_transferred (snd (verify_catalog_checksum env fspec1 destination w)), s1)"
    if "kw_ignore_errors kw" "path_exists env destination w"
  proof -
    obtain st diag fspec2 where v:
      "verify_catalog_checksum env fspec1 destination w = ((st, diag), fspec2)"
      by (metis surj_pair)
    from that a t have "copy_in_file env kw fspec s = copy_in_verify env kw fspec1 s1"
      by (simp add: copy_in_file_not_direct)
    also from that v have "\<dots> = (None, mark_transferred fspec2, s1)"
      by (simp add: copy_in_verify_present [where st = st and diag = diag and ?fspec1.0 = fspec2] d f)
    finally show ?thesis using v by simp
  qed
  have 3: "copy_in_file env kw fspec s =
             (None, mark_transferred fspec1,
              (w, snd s1 @ [Log WARNING ''wrong path: %s'' [PyStr destination]]))"
    if "kw_ignore_errors kw" "\<not> path_exists env destination w"
  proof -
    from that a t have "copy_in_file env kw fspec s = copy_in_verify env kw fspec1 s1"
      by (simp add: copy_in_file_not_direct)
    also from that have "\<dots> = (None, mark_transferred fspec1,
              (w, snd s1 @ [Log WARNING ''wrong path: %s'' [PyStr destination]]))"
      by (simp add: copy_in_verify_missing d f)
    finally show ?thesis .
  qed
  have 4: "mark_transferred fspec1 = fspec1" if "rcode e \<noteq> 0"
    using that by (simp add: mark_transferred_def fspec1_def)
  from t 1 2 3 4
  show "let e = resolve_transfer_error (codes env) err True;
               fspec1 = fspec\<lparr>status_code := rcode e, status := ''failed''\<rparr>;
               s1 = (w, snd s @ [Execute (str_join (copy_in_cmd kw fspec)),
                                 Log INFO ''stdout = %s'' [PyStr out],
                                 Log INFO ''stderr = %s'' [PyStr err]]);
               destination = os_path_join (work_dir kw fspec) (lfn fspec)
           in copy_in_transfer env kw fspec s =
                ((if kw_ignore_errors kw then None
                  else Some (PilotException (error e) (rcode e) (state e))), fspec1, s1)
              \<and> (if \<not> kw_ignore_errors kw then
                    copy_in_loop env kw (fspec # files) s =
                      (Some (PilotException (error e) (rcode e) (state e)), fspec1 # files, s1)
                  else if path_exists env destination w then
                    copy_in_file env kw fspec s =
                      (None,
                       mark_transferred (snd (verify_catalog_checksum env fspec1 destination w)),
                       s1)
                  else
                    copy_in_file env kw fspec s =
                      (None, mark_transferred fspec1,
                       (w, snd s1 @ [Log WARNING ''wrong path: %s'' [PyStr destination]]))
                    \<and> (rcode e \<noteq> 0 \<longrightarrow> mark_transferred fspec1 = fspec1))"
    unfolding Let_def e_def [symmetric] fspec1_def [symmetric] s1_def [symmetric]
      destination_def [symmetric]
    by (simp del: copy_in_loop.simps)
next
  assume a: "copy_out_cmd no_register summary fspec = Inr cmdl
      \<and> execute env (str_join cmdl) (fst s) = ((rc, out, err), w) \<and> rc \<noteq> 0"
  define e where "e = resolve_transfer_error (codes env) err False"
  define fspec1 where "fspec1 = fspec\<lparr>status_code := rcode e, status := ''failed''\<rparr>"
  define s1 where "s1 = (w, snd s @ [Execute (str_join cmdl),
                                 Log INFO ''stdout = %s'' [PyStr out],
                                 Log INFO ''stderr = %s'' [PyStr err]])"
  define path where "path = os_path_join (work_dir kw fspec) ''rucio_upload.json''"
  from a have t: "copy_out_transfer env no_register ignore_errors summary fspec s =
                ((if ignore_errors then None
                  else Some (PilotException (error e) (rcode e) (state e))), fspec1, s1)"
    by (simp add: copy_out_transfer_failed e_def fspec1_def s1_def)
  have d: "os_path_join (work_dir kw fspec1) ''rucio_upload.json'' = path"
    by (simp add: fspec1_def path_def work_dir_def)
  have f: "fst s1 = w" by (simp add: s1_def)
  have 1: "copy_out_loop env no_register ignore_errors kw summary (fspec # files) s =
             (Some (PilotException (error e) (rcode e) (state e)), fspec1 # files, summary, s1)"
    if "\<not> ignore_errors"
    using that t by (simp add: copy_out_file_def)
  have o: "copy_out_file env no_register ignore_errors kw summary fspec s =
             copy_out_summary env ignore_errors kw summary fspec1 s1" if "ignore_errors"
    using that t by (simp add: copy_out_file_def)
  have 2: "fst (copy_out_file env no_register ignore_errors kw summary fspec s) = None
         \<and> fst (snd (copy_out_file env no_register ignore_errors kw summary fspec s)) = fspec1"
    if "ignore_errors" "rcode e \<noteq> 0" "\<not> truthy summary \<or> \<not> path_exists env path w"
  proof -
    have m: "mark_transferred fspec1 = fspec1"
      using that(2) by (simp add: mark_transferred_def fspec1_def)
    from that(3) have "fst (copy_out_summary env ignore_errors kw summary fspec1 s1) = None
        \<and> fst (snd (copy_out_summary env ignore_errors kw summary fspec1 s1)) = mark_transferred fspec1"
      by (auto simp: copy_out_summary_def d f)
    with o [OF that(1)] m show ?thesis by simp
  qed
  have 3: "status (fst (snd (copy_out_file env no_register ignore_errors kw summary fspec s)))
             = ''failed''
         \<and> (status_code (fst (snd (copy_out_file env no_register ignore_errors kw summary fspec s)))
              = rcode e
            \<or> status_code (fst (snd (copy_out_file env no_register ignore_errors kw summary fspec s)))
              = PUTADMISMATCH (codes env))"
    if "ignore_errors" "rcode e \<noteq> 0" "PUTADMISMATCH (codes env) \<noteq> 0"
      "fst (copy_out_file env no_register ignore_errors kw summary fspec s) = None"
  proof -
    obtain r f2 v2 s2 where c:
      "copy_out_summary env ignore_errors kw summary fspec1 s1 = (r, f2, v2, s2)"
      by (metis surj_pair)
    with o [OF that(1)] that(4) have "r = None" by simp
    with c have "copy_out_summary env ignore_errors kw summary fspec1 s1 = (None, f2, v2, s2)"
      by simp
    from copy_out_summary_status [OF this] that(2,3)
    have "status f2 = ''failed''
        \<and> (status_code f2 = rcode e \<or> status_code f2 = PUTADMISMATCH (codes env))"
      by (simp add: fspec1_def)
    with o [OF that(1)] c show ?thesis by simp
  qed
  from t 1 2 3
  show "let e = resolve_transfer_error (codes env) err False;
               fspec1 = fspec\<lparr>status_code := rcode e, status := ''failed''\<rparr>;
               s1 = (w, snd s @ [Execute (str_join cmdl),
                                 Log INFO ''stdout = %s'' [PyStr out],
                                 Log INFO ''stderr = %s'' [PyStr err]]);
               path = os_path_join (work_dir kw fspec) ''rucio_upload.json''
           in copy_out_transfer env no_register ignore_errors summary fspec s =
                ((if ignore_errors then None
                  else Some (PilotException (error e) (rcode e) (state e))), fspec1, s1)
              \<and> (if \<not> ignore_errors then
                    copy_out_loop env no_register ignore_errors kw summary (fspec # files) s =
                      (Some (PilotException (error e) (rcode e) (state e)), fspec1 # files,
                       summary, s1)
                  else
                    (rcode e \<noteq> 0 \<and> (\<not> truthy summary \<or> \<not> path_exists env path w)
                       \<longrightarrow> fst (copy_out_file env no_register ignore_errors kw summary fspec s) = None
                         \<and> fst (snd (copy_out_file env no_register ignore_errors kw summary fspec s))
                            = fspec1)
                    \<and> (rcode e \<noteq> 0 \<and> PUTADMISMATCH (codes env) \<noteq> 0
                       \<and> fst (copy_out_file env no_register ignore_errors kw summary fspec s) = None
                       \<longrightarrow> status (fst (snd (copy_out_file env no_register ignore_errors kw
                                                summary fspec s))) = ''failed''
                         \<and> (status_code (fst (snd (copy_out_file env no_register ignore_errors kw
                                                     summary fspec s))) = rcode e
                            \<or> status_code (fst (snd (copy_out_file env no_register ignore_errors kw
                                                     summary fspec s)))
                               = PUTADMISMATCH (codes env))))"
    unfolding Let_def e_def [symmetric] fspec1_def [symmetric] s1_def [symmetric]
      path_def [symmetric]
    by (simp del: copy_out_loop.simps)
qed

theorem failed_transfer_classified_witness:
  "\<not> direct default_kwargs (sample_file ''file2'')
   \<and> execute (failing_env (\<lambda>p. False) None) (sample_download ''file2'') ()
      = ((1, [], ''Details: disk full''), ())
   \<and> (1::int) \<noteq> 0
   \<and> copy_in_loop (failing_env (\<lambda>p. False) None) default_kwargs
        [sample_file ''file2'', sample_file ''file3''] ((), [])
      = (Some (PilotException ''disk full'' 1099 ''COPY_ERROR''),
         [(sample_file ''file2'')\<lparr>status_code := 1099, status := ''failed''\<rparr>, sample_file ''file3''],
         ((), [Execute (sample_download ''file2''),
               Log INFO ''stdout = %s'' [PyStr []],
               Log INFO ''stderr = %s'' [PyStr ''Details: disk full'']]))
   \<and> \<not> path_exists (failing_env (\<lambda>p. False) None) ''./file2'' ()
   \<and> copy_in_file (failing_env (\<lambda>p. False) None) (default_kwargs\<lparr>kw_ignore_errors := True\<rparr>)
        (sample_file ''file2'') ((), [])
      = (None, (sample_file ''file2'')\<lparr>status_code := 1099, status := ''failed''\<rparr>,
         ((), [Execute (sample_download ''file2''),
               Log INFO ''stdout = %s'' [PyStr []],
               Log INFO ''stderr = %s'' [PyStr ''Details: disk full''],
               Log WARNING ''wrong path: %s'' [PyStr ''./file2'']]))
   \<and> copy_out_cmd False (PyBool True) (sample_file ''file2'') = Inr (sample_upload ''file2'')
   \<and> execute (failing_env (\<lambda>p. False) None) (str_join (sample_upload ''file2'')) ()
      = ((1, [], ''Details: disk full''), ())
   \<and> \<not> path_exists (failing_env (\<lambda>p. False) None) ''./rucio_upload.json'' ()
   \<and> PUTADMISMATCH (codes (failing_env (\<lambda>p. False) None)) = 1141
   \<and> fst (copy_out_file (failing_env (\<lambda>p. False) None) False True default_kwargs (PyBool True)
        (sample_file ''file2'') ((), [])) = None
   \<and> fst (snd (copy_out_file (failing_env (\<lambda>p. False) None) False True default_kwargs (PyBool True)
        (sample_file ''file2'') ((), [])))
      = (sample_file ''file2'')\<lparr>status_code := 1137, status := ''failed''\<rparr>
   \<and> copy_out_loop (failing_env (\<lambda>p. False) None) False False default_kwargs (PyBool True)
        [sample_file ''file2'', sample_file ''file3''] ((), [])
      = (Some (PilotException ''disk full'' 1137 ''COPY_ERROR''),
         [(sample_file ''file2'')\<lparr>status_code := 1137, status := ''failed''\<rparr>, sample_file ''file3''],
         PyBool True,
         ((), [Execute (str_join (sample_upload ''file2'')),
               Log INFO ''stdout = %s'' [PyStr []],
               Log INFO ''stderr = %s'' [PyStr ''Details: disk full'']]))"
  (is "?a \<and> ?b \<and> ?c \<and> ?d \<and> ?e \<and> ?f \<and> ?g \<and> ?h \<and> ?i \<and> ?j \<and> ?k \<and> ?l \<and> ?m")
proof -
  let ?E = "failing_env (\<lambda>p. False) None"
  let ?K = "default_kwargs\<lparr>kw_ignore_errors := True\<rparr>"
  let ?F = "sample_file ''file2''"
  have a: ?a by (simp add: direct_def sample_defs)
  have a': "\<not> direct ?K ?F" by (simp add: direct_def sample_defs)
  have b: ?b and h: ?h by (simp_all add: sample_defs startswith_def)
  have c: ?c by simp
  have p: "\<not> path_exists ?E x y" for x y by (simp add: sample_defs)
  have j: ?j by (simp add: sample_defs)
  have g: ?g by (simp add: sample_defs copy_out_cmd_def)
  have cmd: "str_join (copy_in_cmd default_kwargs ?F) = sample_download ''file2''"
    "str_join (copy_in_cmd ?K ?F) = sample_download ''file2''"
    by (simp_all add: sample_defs copy_in_cmd_def work_dir_def require_replicas_def)
  have dest: "os_path_join (work_dir ?K ?F) (lfn ?F) = ''./file2''"
    by (simp add: sample_defs work_dir_def os_path_join_def startswith_def)
  have cl: "resolve_transfer_error (codes ?E) ''Details: disk full'' True
      = \<lparr>rcode = 1099, state = ''COPY_ERROR'', error = ''disk full''\<rparr>"
    "resolve_transfer_error (codes ?E) ''Details: disk full'' False
      = \<lparr>rcode = 1137, state = ''COPY_ERROR'', error = ''disk full''\<rparr>"
    by (simp_all add: sample_defs classifier_defs)
  have k1: "\<not> kw_ignore_errors default_kwargs" and k2: "kw_ignore_errors ?K"
    by (simp_all add: default_kwargs_def)
  have x: "execute ?E (str_join (copy_in_cmd kw ?F)) y = ((1, [], ''Details: disk full''), ())"
    if "str_join (copy_in_cmd kw ?F) = sample_download ''file2''" for kw y
    using that b by simp
  have y: "execute ?E (str_join (sample_upload ''file2'')) z = ((1, [], ''Details: disk full''), ())"
    for z
    using h by simp
  note T1 = failed_transfer_classified [where env = ?E and kw = default_kwargs and fspec = ?F
      and s = "((), [])" and rc = 1 and out = "[]" and err = "''Details: disk full''" and w = "()"
      and files = "[sample_file ''file3'']", THEN conjunct1]
  from T1 a x [OF cmd(1)] k1 have d: ?d
    by (simp add: Let_def cl cmd del: copy_in_loop.simps)
  note T2 = failed_transfer_classified [where env = ?E and kw = ?K and fspec = ?F
      and s = "((), [])" and rc = 1 and out = "[]" and err = "''Details: disk full''" and w = "()",
      THEN conjunct1]
  from T2 a' x [OF cmd(2)] k2 p have f: ?f
    by (simp add: Let_def cl cmd dest mark_transferred_def del: copy_in_loop.simps)
  note T3 = failed_transfer_classified [where env = ?E and kw = default_kwargs and fspec = ?F
      and s = "((), [])" and rc = 1 and out = "[]" and err = "''Details: disk full''" and w = "()"
      and no_register = False and summary = "PyBool True" and cmdl = "sample_upload ''file2''"
      and ignore_errors = True, THEN conjunct2]
  from T3 g y p have k: ?k and l: ?l
    by (simp_all add: Let_def cl del: copy_out_loop.simps)
  note T4 = failed_transfer_classified [where env = ?E and kw = default_kwargs and fspec = ?F
      and s = "((), [])" and rc = 1 and out = "[]" and err = "''Details: disk full''" and w = "()"
      and no_register = False and summary = "PyBool True" and cmdl = "sample_upload ''file2''"
      and ignore_errors = False and files = "[sample_file ''file3'']", THEN conjunct2]
  from T4 g y have m: ?m
    by (simp add: Let_def cl del: copy_out_loop.simps)
  have e: ?e and i: ?i by (simp_all add: p)
  from a b c d e f g h i j k l m show ?thesis by blast
qed

text \<open>
  Claim C5 as stated fails with \<^verbatim>\<open>ignore_errors\<close>: the command exits with 1 and the
  classifier gives 1137 (outbound) and 1099 (inbound), but the record ends with the code
  of the digest comparison that follows, 1141 in \<^verbatim>\<open>copy_out\<close> and the collaborator's
  1171 in \<^verbatim>\<open>copy_in\<close>.
\<close>

theorem failed_transfer_counterexample:
  "fst (fst (execute (sample_env (fail_on ''file1'') ''Details: disk full'' (\<lambda>p. True)
                        (Some sample_summary) False)
               (str_join (sample_upload ''file1'')) ())) = 1
   \<and> rcode (resolve_transfer_error
              (codes (sample_env (fail_on ''file1'') ''Details: disk full'' (\<lambda>p. True)
                        (Some sample_summary) False))
              ''Details: disk full'' False) = 1137
   \<and> copy_out_cmd False (PyBool True) second_record = Inr (sample_upload ''file1'')
   \<and> fst (copy_out_file (sample_env (fail_on ''file1'') ''Details: disk full'' (\<lambda>p. True)
                            (Some sample_summary) False)
            False True default_kwargs (PyBool True) second_record ((), [])) = None
   \<and> status_code (fst (snd (copy_out_file
            (sample_env (fail_on ''file1'') ''Details: disk full'' (\<lambda>p. True)
               (Some sample_summary) False)
            False True default_kwargs (PyBool True) second_record ((), [])))) = 1141
   \<and> fst (fst (execute (sample_env (fail_on ''file2'') ''Details: disk full'' (\<lambda>p. True) None True)
               (str_join (copy_in_cmd (default_kwargs\<lparr>kw_ignore_errors := True\<rparr>)
                            (sample_file ''file2''))) ())) = 1
   \<and> rcode (resolve_transfer_error
              (codes (sample_env (fail_on ''file2'') ''Details: disk full'' (\<lambda>p. True) None True))
              ''Details: disk full'' True) = 1099
   \<and> fst (copy_in_file (sample_env (fail_on ''file2'') ''Details: disk full'' (\<lambda>p. True) None True)
            (default_kwargs\<lparr>kw_ignore_errors := True\<rparr>) (sample_file ''file2'') ((), [])) = None
   \<and> status_code (fst (snd (copy_in_file
            (sample_env (fail_on ''file2'') ''Details: disk full'' (\<lambda>p. True) None True)
            (default_kwargs\<lparr>kw_ignore_errors := True\<rparr>) (sample_file ''file2'') ((), [])))) = 1171"
  by (simp add: sample_defs copy_in_defs copy_out_defs classifier_defs)

subsection \<open>Python errors in a pass of \<^verbatim>\<open>copy_out\<close>\<close>

lemma copy_out_cmd_ok:
  "(\<exists>cmdl. copy_out_cmd no_register summary fspec = Inr cmdl) = turl_is_str (turl fspec)"
  by (cases "turl fspec") (auto simp: copy_out_cmd_def Let_def)

lemma copy_out_transfer_normal:
  "(fst (copy_out_transfer env no_register True summary fspec s) = None)
     = turl_is_str (turl fspec)"
proof (cases "copy_out_cmd no_register summary fspec")
  case (Inl e)
  with copy_out_cmd_ok [of no_register summary fspec] show ?thesis
    by (simp add: copy_out_transfer_def)
next
  case (Inr cmdl)
  with copy_out_cmd_ok [of no_register summary fspec] show ?thesis
    by (auto simp: copy_out_transfer_def Let_def split: prod.splits)
qed

lemma summary_readable_key:
  "scope fspec1 = scope fspec \<Longrightarrow> lfn fspec1 = lfn fspec \<Longrightarrow>
   summary_readable fspec1 v = summary_readable fspec v"
  by (cases v) simp_all

lemma check_summary_normal:
  "(fst (check_summary ec True summary fspec s) = None) = summary_readable fspec summary"
proof (cases summary)
  case (PyDict kvs)
  define k where "k = scope fspec @ '':'' @ lfn fspec"
  define v where "v = (case map_of kvs k of None \<Rightarrow> PyNone | Some x \<Rightarrow> x)"
  have g: "py_get summary k = Inr v" by (simp add: PyDict v_def)
  have r: "summary_readable fspec summary = (is_dict v \<or> \<not> truthy v)"
    by (simp add: PyDict k_def v_def split: option.splits)
  show ?thesis
  proof (cases "is_dict v \<or> \<not> truthy v")
    case True
    then have "\<exists>d. (if truthy v then v else PyDict []) = PyDict d"
      by (cases v) auto
    then obtain d where d: "(if truthy v then v else PyDict []) = PyDict d"
      by blast
    have "fst (check_summary ec True summary fspec s) = None"
      unfolding check_summary_def k_def [symmetric] by (simp add: g d Let_def)
    with r True show ?thesis by simp
  next
    case False
    then have t: "truthy v" and n: "\<not> is_dict v" by simp_all
    from n have "py_get v ''pfn'' = Inl AttributeError" by (cases v) simp_all
    with t have "fst (check_summary ec True summary fspec s) = Some AttributeError"
      unfolding check_summary_def k_def [symmetric] by (simp add: g Let_def)
    with r False show ?thesis by simp
  qed
qed (simp_all add: check_summary_def)

lemma copy_out_summary_normal:
  "(fst (copy_out_summary env True kw summary fspec s) = None)
     = (truthy summary
          \<and> path_exists env (os_path_join (work_dir kw fspec) ''rucio_upload.json'') (fst s)
        \<longrightarrow> (\<exists>summary1.
               json_load env (os_path_join (work_dir kw fspec) ''rucio_upload.json'') (fst s)
                 = Some summary1
               \<and> summary_readable fspec summary1))"
proof (cases "truthy summary
    \<and> path_exists env (os_path_join (work_dir kw fspec) ''rucio_upload.json'') (fst s)")
  case False
  then show ?thesis by (auto simp: copy_out_summary_def Let_def)
next
  case True
  show ?thesis
  proof (cases "json_load env (os_path_join (work_dir kw fspec) ''rucio_upload.json'') (fst s)")
    case None
    with True show ?thesis by (simp add: copy_out_summary_def)
  next
    case (Some summary1)
    from check_summary_normal [of "codes env" summary1 fspec
        "emit [JsonLoad (os_path_join (work_dir kw fspec) ''rucio_upload.json'')] s"] True Some
    show ?thesis
      by (auto simp: copy_out_summary_def Let_def split: prod.splits option.splits)
  qed
qed

lemma copy_out_transfer_same:
  "copy_out_transfer env no_register ignore_errors summary fspec s = (r, fspec1, s1) \<Longrightarrow>
   scope fspec1 = scope fspec \<and> lfn fspec1 = lfn fspec \<and> work_dir kw fspec1 = work_dir kw fspec"
  by (auto simp: copy_out_transfer_def Let_def work_dir_def
      split: sum.splits prod.splits if_splits)

lemma copy_out_file_normal:
  "(fst (copy_out_file env no_register True kw summary fspec s) = None)
     = (turl_is_str (turl fspec)
        \<and> (truthy summary
             \<and> path_exists env (os_path_join (work_dir kw fspec) ''rucio_upload.json'')
                 (fst (snd (snd (copy_out_transfer env no_register True summary fspec s))))
           \<longrightarrow> (\<exists>summary1.
                  json_load env (os_path_join (work_dir kw fspec) ''rucio_upload.json'')
                    (fst (snd (snd (copy_out_transfer env no_register True summary fspec s))))
                    = Some summary1
                  \<and> summary_readable fspec summary1)))"
proof -
  obtain r fspec1 s1 where t:
    "copy_out_transfer env no_register True summary fspec s = (r, fspec1, s1)"
    by (rule prod_cases3)
  note k = copy_out_transfer_same [OF t, of kw]
  from copy_out_transfer_normal [of env no_register summary fspec s] t
  have n: "(r = None) = turl_is_str (turl fspec)" by simp
  show ?thesis
  proof (cases r)
    case (Some e)
    with t n show ?thesis by (simp add: copy_out_file_def)
  next
    case None
    with t have "copy_out_file env no_register True kw summary fspec s
        = copy_out_summary env True kw summary fspec1 s1"
      by (simp add: copy_out_file_def)
    with copy_out_summary_normal [of env kw summary fspec1 s1] k n None t
      summary_readable_key [of fspec1 fspec]
    show ?thesis by simp
  qed
qed

text \<open>
  Claim C4, as the code has it. Without \<^verbatim>\<open>ignore_errors\<close>, in both directions, when
  the records before a record have been processed normally and the command of that
  record exits with a nonzero code, the call raises the \<^verbatim>\<open>PilotException\<close> of the
  classifier; the trace ends with the command of the failing record and its two log
  records, so no command is issued for a later record, and the later records are
  returned as they were. With \<^verbatim>\<open>ignore_errors\<close>, \<^verbatim>\<open>copy_in\<close> returns normally with
  every record processed and the command of every record that is not accessed directly
  executed, in order. \<^verbatim>\<open>copy_out\<close> then never raises a \<^verbatim>\<open>PilotException\<close>, and
  when it returns normally it has executed one command for each record; but a pass, and
  the batch with it, ends with a Python error exactly when the \<^verbatim>\<open>turl\<close> is a true value
  that is not a string, or the summary file that the pass reads does not parse, is not
  an object, or holds a true value that is not an object for the record. A record whose
  command fails ends with the tag \<^verbatim>\<open>failed\<close> (in \<^verbatim>\<open>copy_in\<close> with the classifier's
  code when the destination file does not exist; in \<^verbatim>\<open>copy_out\<close> with a nonzero code,
  the codes being nonzero). The records after a list of records are processed as a batch
  of their own from what that list left: the world and, in \<^verbatim>\<open>copy_out\<close>, the value of
  the variable \<^verbatim>\<open>summary\<close>.
\<close>

theorem batch_short_circuit:
  "(\<not> kw_ignore_errors kw \<and> copy_in_loop env kw pre s = (None, pre1, s1) \<and> \<not> direct kw fspec
      \<and> execute env (str_join (copy_in_cmd kw fspec)) (fst s1) = ((rc, out, err), w) \<and> rc \<noteq> 0
      \<longrightarrow> copy_in_loop env kw (pre @ fspec # post) s =
            (Some (PilotException (error (resolve_transfer_error (codes env) err True))
                     (rcode (resolve_transfer_error (codes env) err True))
                     (state (resolve_transfer_error (codes env) err True))),
             pre1 @ fspec\<lparr>status_code := rcode (resolve_transfer_error (codes env) err True),
                          status := ''failed''\<rparr> # post,
             (w, snd s1 @ [Execute (str_join (copy_in_cmd kw fspec)),
                           Log INFO ''stdout = %s'' [PyStr out],
                           Log INFO ''stderr = %s'' [PyStr err]])))
   \<and> (\<not> ignore_errors
      \<and> copy_out_loop env no_register ignore_errors kw summary pre s = (None, pre2, summary1, s1)
      \<and> copy_out_cmd no_register summary1 fspec = Inr cmdl
      \<and> execute env (str_join cmdl) (fst s1) = ((rc, out, err), w) \<and> rc \<noteq> 0
      \<longrightarrow> copy_out_loop env no_register ignore_errors kw summary (pre @ fspec # post) s =
            (Some (PilotException (error (resolve_transfer_error (codes env) err False))
                     (rcode (resolve_transfer_error (codes env) err False))
                     (state (resolve_transfer_error (codes env) err False))),
             pre2 @ fspec\<lparr>status_code := rcode (resolve_transfer_error (codes env) err False),
                          status := ''failed''\<rparr> # post,
             summary1,
             (w, snd s1 @ [Execute (str_join cmdl),
                           Log INFO ''stdout = %s'' [PyStr out],
                           Log INFO ''stderr = %s'' [PyStr err]])))
   \<and> (kw_ignore_errors kw
      \<longrightarrow> (\<exists>files1 s2. copy_in env files kw w0 = (None, files1, s2)
             \<and> length files1 = length files
             \<and> executed (snd s2) =
                 map (\<lambda>f. str_join (copy_in_cmd kw f)) (filter (\<lambda>f. \<not> direct kw f) files))
          \<and> copy_in_loop env kw (pre @ post) s =
              (None,
               fst (snd (copy_in_loop env kw pre s))
                 @ fst (snd (copy_in_loop env kw post (snd (snd (copy_in_loop env kw pre s))))),
               snd (snd (copy_in_loop env kw post (snd (snd (copy_in_loop env kw pre s)))))))
   \<and> (kw_ignore_errors kw \<and> \<not> direct kw fspec
      \<and> execute env (str_join (copy_in_cmd kw fspec)) (fst s) = ((rc, out, err), w) \<and> rc \<noteq> 0
      \<and> rcode (resolve_transfer_error (codes env) err True) \<noteq> 0
      \<and> \<not> path_exists env (os_path_join (work_dir kw fspec) (lfn fspec)) w
      \<longrightarrow> fst (copy_in_file env kw fspec s) = None
          \<and> fst (snd (copy_in_file env kw fspec s)) =
              fspec\<lparr>status_code := rcode (resolve_transfer_error (codes env) err True),
                     status := ''failed''\<rparr>)
   \<and> (kw_ignore_errors kw
      \<longrightarrow> (\<forall>m c st. fst (copy_out env files kw w0) \<noteq> Some (PilotException m c st)))
   \<and> (kw_ignore_errors kw \<and> copy_out env files kw w0 = (None, files2, s3)
      \<longrightarrow> length files2 = length files \<and> length (executed (snd s3)) = length files)
   \<and> ((fst (copy_out_file env no_register True kw summary fspec s) = None)
        = (turl_is_str (turl fspec)
           \<and> (truthy summary
                \<and> path_exists env (os_path_join (work_dir kw fspec) ''rucio_upload.json'')
                    (fst (snd (snd (copy_out_transfer env no_register True summary fspec s))))
              \<longrightarrow> (\<exists>parsed.
                     json_load env (os_path_join (work_dir kw fspec) ''rucio_upload.json'')
                       (fst (snd (snd (copy_out_transfer env no_register True summary fspec s))))
                       = Some parsed
                     \<and> summary_readable fspec parsed))))
   \<and> (copy_out_cmd no_register summary fspec = Inr cmdl
      \<and> execute env (str_join cmdl) (fst s) = ((rc, out, err), w) \<and> rc \<noteq> 0
      \<and> rcode (resolve_transfer_error (codes env) err False) \<noteq> 0
      \<and> PUTADMISMATCH (codes env) \<noteq> 0
      \<and> fst (copy_out_file env no_register True kw summary fspec s) = None
      \<longrightarrow> status (fst (snd (copy_out_file env no_register True kw summary fspec s))) = ''failed''
          \<and> status_code (fst (snd (copy_out_file env no_register True kw summary fspec s))) \<noteq> 0)
   \<and> (copy_out_loop env no_register ignore_errors kw summary pre s = (None, pre2, summary1, s1)
      \<longrightarrow> copy_out_loop env no_register ignore_errors kw summary (pre @ post) s =
            (fst (copy_out_loop env no_register ignore_errors kw summary1 post s1),
             pre2 @ fst (snd (copy_out_loop env no_register ignore_errors kw summary1 post s1)),
             snd (snd (copy_out_loop env no_register ignore_errors kw summary1 post s1))))"
proof (intro conjI impI allI)
  assume a: "\<not> kw_ignore_errors kw \<and> copy_in_loop env kw pre s = (None, pre1, s1) \<and> \<not> direct kw fspec
      \<and> execute env (str_join (copy_in_cmd kw fspec)) (fst s1) = ((rc, out, err), w) \<and> rc \<noteq> 0"
  then have "copy_in_file env kw fspec s1 =
      (Some (PilotException (error (resolve_transfer_error (codes env) err True))
                     (rcode (resolve_transfer_error (codes env) err True))
                     (state (resolve_transfer_error (codes env) err True))),
       fspec\<lparr>status_code := rcode (resolve_transfer_error (codes env) err True),
              status := ''failed''\<rparr>,
       (w, snd s1 @ [Execute (str_join (copy_in_cmd kw fspec)),
                           Log INFO ''stdout = %s'' [PyStr out],
                           Log INFO ''stderr = %s'' [PyStr err]]))"
    by (simp add: copy_in_file_not_direct copy_in_transfer_failed)
  with a show "copy_in_loop env kw (pre @ fspec # post) s =
            (Some (PilotException (error (resolve_transfer_error (codes env) err True))
                     (rcode (resolve_transfer_error (codes env) err True))
                     (state (resolve_transfer_error (codes env) err True))),
             pre1 @ fspec\<lparr>status_code := rcode (resolve_transfer_error (codes env) err True),
                          status := ''failed''\<rparr> # post,
             (w, snd s1 @ [Execute (str_join (copy_in_cmd kw fspec)),
                           Log INFO ''stdout = %s'' [PyStr out],
                           Log INFO ''stderr = %s'' [PyStr err]]))"
    by (simp add: copy_in_loop_append)
next
  assume a: "\<not> ignore_errors
      \<and> copy_out_loop env no_register ignore_errors kw summary pre s = (None, pre2, summary1, s1)
      \<and> copy_out_cmd no_register summary1 fspec = Inr cmdl
      \<and> execute env (str_join cmdl) (fst s1) = ((rc, out, err), w) \<and> rc \<noteq> 0"
  then have "copy_out_file env no_register ignore_errors kw summary1 fspec s1 =
      (Some (PilotException (error (resolve_transfer_error (codes env) err False))
                     (rcode (resolve_transfer_error (codes env) err False))
                     (state (resolve_transfer_error (codes env) err False))),
       fspec\<lparr>status_code := rcode (resolve_transfer_error (codes env) err False),
              status := ''failed''\<rparr>,
       summary1,
       (w, snd s1 @ [Execute (str_join cmdl),
                           Log INFO ''stdout = %s'' [PyStr out],
                           Log INFO ''stderr = %s'' [PyStr err]]))"
    by (simp add: copy_out_file_def copy_out_transfer_failed)
  with a show "copy_out_loop env no_register ignore_errors kw summary (pre @ fspec # post) s =
            (Some (PilotException (error (resolve_transfer_error (codes env) err False))
                     (rcode (resolve_transfer_error (codes env) err False))
                     (state (resolve_transfer_error (codes env) err False))),
             pre2 @ fspec\<lparr>status_code := rcode (resolve_transfer_error (codes env) err False),
                          status := ''failed''\<rparr> # post,
             summary1,
             (w, snd s1 @ [Execute (str_join cmdl),
                           Log INFO ''stdout = %s'' [PyStr out],
                           Log INFO ''stderr = %s'' [PyStr err]]))"
    by (cases ignore_errors) (simp_all add: copy_out_loop_append)
next
  assume i: "kw_ignore_errors kw"
  obtain r files1 s2 where e: "copy_in env files kw w0 = (r, files1, s2)"
    by (rule prod_cases3)
  with copy_in_loop_ignore [OF i, of env files
      "(w0, [Setenv ''RUCIO_LOGGING_FORMAT'' logging_format])"] have r: "r = None"
    by (simp add: copy_in_def)
  from e r copy_in_loop_length [of env kw files _ r files1 s2]
    copy_in_loop_executed [of env kw files _ files1 s2]
  show "\<exists>files1 s2. copy_in env files kw w0 = (None, files1, s2)
             \<and> length files1 = length files
             \<and> executed (snd s2) =
                 map (\<lambda>f. str_join (copy_in_cmd kw f)) (filter (\<lambda>f. \<not> direct kw f) files)"
    by (simp add: copy_in_def)
next
  assume i: "kw_ignore_errors kw"
  from copy_in_loop_ignore [OF i, of env pre s]
    copy_in_loop_ignore [OF i, of env post "snd (snd (copy_in_loop env kw pre s))"]
  show "copy_in_loop env kw (pre @ post) s =
              (None,
               fst (snd (copy_in_loop env kw pre s))
                 @ fst (snd (copy_in_loop env kw post (snd (snd (copy_in_loop env kw pre s))))),
               snd (snd (copy_in_loop env kw post (snd (snd (copy_in_loop env kw pre s))))))"
    by (auto simp: copy_in_loop_append split: prod.splits option.splits)
next
  assume a: "kw_ignore_errors kw \<and> \<not> direct kw fspec
      \<and> execute env (str_join (copy_in_cmd kw fspec)) (fst s) = ((rc, out, err), w) \<and> rc \<noteq> 0
      \<and> rcode (resolve_transfer_error (codes env) err True) \<noteq> 0
      \<and> \<not> path_exists env (os_path_join (work_dir kw fspec) (lfn fspec)) w"
  let ?f1 = "fspec\<lparr>status_code := rcode (resolve_transfer_error (codes env) err True),
                     status := ''failed''\<rparr>"
  let ?s1 = "(w, snd s @ [Execute (str_join (copy_in_cmd kw fspec)),
                         Log INFO ''stdout = %s'' [PyStr out],
                         Log INFO ''stderr = %s'' [PyStr err]])"
  from a have o: "copy_in_file env kw fspec s = copy_in_verify env kw ?f1 ?s1"
    by (simp add: copy_in_file_not_direct copy_in_transfer_failed)
  have d: "work_dir kw ?f1 = work_dir kw fspec"
    by (simp add: work_dir_def)
  from a have "\<not> path_exists env (os_path_join (work_dir kw ?f1) (lfn ?f1)) (fst ?s1)"
    by (simp add: d)
  from copy_in_verify_missing [OF this] a
  have "fst (copy_in_verify env kw ?f1 ?s1) = None"
    and "fst (snd (copy_in_verify env kw ?f1 ?s1)) = ?f1"
    by (simp_all add: mark_transferred_def)
  with o show "fst (copy_in_file env kw fspec s) = None"
    and "fst (snd (copy_in_file env kw fspec s)) =
              fspec\<lparr>status_code := rcode (resolve_transfer_error (codes env) err True),
                     status := ''failed''\<rparr>"
    by simp_all
next
  fix m c st
  assume i: "kw_ignore_errors kw"
  obtain r fs v s2 where l: "copy_out_loop env (kw_no_register kw) True kw (kw_summary kw) files
             (w0, [Setenv ''RUCIO_LOGGING_FORMAT'' logging_format]) = (r, fs, v, s2)"
    by (metis surj_pair)
  from copy_out_loop_ignore [OF l, of m c st] l i
  show "fst (copy_out env files kw w0) \<noteq> Some (PilotException m c st)"
    by (simp add: copy_out_def)
next
  assume a: "kw_ignore_errors kw \<and> copy_out env files kw w0 = (None, files2, s3)"
  obtain r fs v s2 where l: "copy_out_loop env (kw_no_register kw) True kw (kw_summary kw) files
             (w0, [Setenv ''RUCIO_LOGGING_FORMAT'' logging_format]) = (r, fs, v, s2)"
    by (metis surj_pair)
  from a have i: "kw_ignore_errors kw" and e: "copy_out env files kw w0 = (None, files2, s3)"
    by simp_all
  from e i l have eq: "r = None" "fs = files2" "s2 = s3" by (simp_all add: copy_out_def)
  from copy_out_loop_ignore [OF l, of undefined undefined undefined]
    copy_out_loop_length [OF l] eq
  show "length files2 = length files" and "length (executed (snd s3)) = length files"
    by simp_all
next
  show "(fst (copy_out_file env no_register True kw summary fspec s) = None)
        = (turl_is_str (turl fspec)
           \<and> (truthy summary
                \<and> path_exists env (os_path_join (work_dir kw fspec) ''rucio_upload.json'')
                    (fst (snd (snd (copy_out_transfer env no_register True summary fspec s))))
              \<longrightarrow> (\<exists>parsed.
                     json_load env (os_path_join (work_dir kw fspec) ''rucio_upload.json'')
                       (fst (snd (snd (copy_out_transfer env no_register True summary fspec s))))
                       = Some parsed
                     \<and> summary_readable fspec parsed)))"
    by (rule copy_out_file_normal)
next
  assume a: "copy_out_cmd no_register summary fspec = Inr cmdl
      \<and> execute env (str_join cmdl) (fst s) = ((rc, out, err), w) \<and> rc \<noteq> 0
      \<and> rcode (resolve_transfer_error (codes env) err False) \<noteq> 0
      \<and> PUTADMISMATCH (codes env) \<noteq> 0
      \<and> fst (copy_out_file env no_register True kw summary fspec s) = None"
  let ?f1 = "fspec\<lparr>status_code := rcode (resolve_transfer_error (codes env) err False),
                     status := ''failed''\<rparr>"
  let ?s1 = "(w, snd s @ [Execute (str_join cmdl),
                         Log INFO ''stdout = %s'' [PyStr out],
                         Log INFO ''stderr = %s'' [PyStr err]])"
  from a have o: "copy_out_file env no_register True kw summary fspec s =
      copy_out_summary env True kw summary ?f1 ?s1"
    by (simp add: copy_out_file_def copy_out_transfer_failed)
  obtain r f2 v2 s2 where c: "copy_out_summary env True kw summary ?f1 ?s1 = (r, f2, v2, s2)"
    by (metis surj_pair)
  with o a have "copy_out_summary env True kw summary ?f1 ?s1 = (None, f2, v2, s2)"
    by simp
  from copy_out_summary_status [OF this] a
  have "status f2 = ''failed'' \<and> status_code f2 \<noteq> 0" by auto
  with o c
  show "status (fst (snd (copy_out_file env no_register True kw summary fspec s))) = ''failed''"
    and "status_code (fst (snd (copy_out_file env no_register True kw summary fspec s))) \<noteq> 0"
    by simp_all
next
  assume "copy_out_loop env no_register ignore_errors kw summary pre s = (None, pre2, summary1, s1)"
  then show "copy_out_loop env no_register ignore_errors kw summary (pre @ post) s =
            (fst (copy_out_loop env no_register ignore_errors kw summary1 post s1),
             pre2 @ fst (snd (copy_out_loop env no_register ignore_errors kw summary1 post s1)),
             snd (snd (copy_out_loop env no_register ignore_errors kw summary1 post s1)))"
    by (simp add: copy_out_loop_append split: prod.splits)
qed

theorem batch_short_circuit_witness:
  "\<not> kw_ignore_errors default_kwargs
   \<and> copy_in_loop (failing_env (\<lambda>p. False) None) default_kwargs [sample_file ''file1''] ((), [])
      = (None, [(sample_file ''file1'')\<lparr>status_code := 0, status := ''transferred''\<rparr>],
         ((), [Execute (sample_download ''file1''),
               Log INFO ''stdout = %s'' [PyStr []],
               Log INFO ''stderr = %s'' [PyStr ''Details: disk full''],
               Log WARNING ''wrong path: %s'' [PyStr ''./file1'']]))
   \<and> \<not> direct default_kwargs (sample_file ''file2'')
   \<and> execute (failing_env (\<lambda>p. False) None) (sample_download ''file2'') ()
      = ((1, [], ''Details: disk full''), ())
   \<and> copy_in_loop (failing_env (\<lambda>p. False) None) default_kwargs sample_files ((), [])
      = (Some (PilotException ''disk full'' 1099 ''COPY_ERROR''),
         [(sample_file ''file1'')\<lparr>status_code := 0, status := ''transferred''\<rparr>,
          (sample_file ''file2'')\<lparr>status_code := 1099, status := ''failed''\<rparr>,
          sample_file ''file3''],
         ((), [Execute (sample_download ''file1''),
               Log INFO ''stdout = %s'' [PyStr []],
               Log INFO ''stderr = %s'' [PyStr ''Details: disk full''],
               Log WARNING ''wrong path: %s'' [PyStr ''./file1''],
               Execute (sample_download ''file2''),
               Log INFO ''stdout = %s'' [PyStr []],
               Log INFO ''stderr = %s'' [PyStr ''Details: disk full'']]))
   \<and> copy_out_loop (failing_env (\<lambda>p. False) None) False False default_kwargs (PyBool True)
        [sample_file ''file1''] ((), [])
      = (None, [(sample_file ''file1'')\<lparr>status_code := 0, status := ''transferred''\<rparr>],
         PyBool True,
         ((), [Execute (str_join (sample_upload ''file1'')),
               Log INFO ''stdout = %s'' [PyStr []],
               Log INFO ''stderr = %s'' [PyStr ''Details: disk full''],
               Log ERROR ''Failed to resolve Rucio summary JSON, wrong path? file=%s''
                 [PyStr ''./rucio_upload.json'']]))
   \<and> copy_out_cmd False (PyBool True) (sample_file ''file2'') = Inr (sample_upload ''file2'')
   \<and> execute (failing_env (\<lambda>p. False) None) (str_join (sample_upload ''file2'')) ()
      = ((1, [], ''Details: disk full''), ())
   \<and> copy_out_loop (failing_env (\<lambda>p. False) None) False False default_kwargs (PyBool True)
        sample_files ((), [])
      = (Some (PilotException ''disk full'' 1137 ''COPY_ERROR''),
         [(sample_file ''file1'')\<lparr>status_code := 0, status := ''transferred''\<rparr>,
          (sample_file ''file2'')\<lparr>status_code := 1137, status := ''failed''\<rparr>,
          sample_file ''file3''],
         PyBool True,
         ((), [Execute (str_join (sample_upload ''file1'')),
               Log INFO ''stdout = %s'' [PyStr []],
               Log INFO ''stderr = %s'' [PyStr ''Details: disk full''],
               Log ERROR ''Failed to resolve Rucio summary JSON, wrong path? file=%s''
                 [PyStr ''./rucio_upload.json''],
               Execute (str_join (sample_upload ''file2'')),
               Log INFO ''stdout = %s'' [PyStr []],
               Log INFO ''stderr = %s'' [PyStr ''Details: disk full'']]))
   \<and> kw_ignore_errors (default_kwargs\<lparr>kw_ignore_errors := True\<rparr>)
   \<and> fst (copy_in (failing_env (\<lambda>p. False) None) sample_files
             (default_kwargs\<lparr>kw_ignore_errors := True\<rparr>) ()) = None
   \<and> length (fst (snd (copy_in (failing_env (\<lambda>p. False) None) sample_files
             (default_kwargs\<lparr>kw_ignore_errors := True\<rparr>) ()))) = 3
   \<and> executed (snd (snd (snd (copy_in (failing_env (\<lambda>p. False) None) sample_files
             (default_kwargs\<lparr>kw_ignore_errors := True\<rparr>) ()))))
      = [sample_download ''file1'', sample_download ''file2'', sample_download ''file3'']
   \<and> map (\<lambda>f. (status_code f, status f))
        (fst (snd (copy_in_loop (failing_env (\<lambda>p. False) None)
             (default_kwargs\<lparr>kw_ignore_errors := True\<rparr>)
             ([sample_file ''file1'', sample_file ''file2''] @ [sample_file ''file3'']) ((), []))))
      = [(0, ''transferred''), (1099, ''failed''), (0, ''transferred'')]
   \<and> fst (copy_out (failing_env (\<lambda>p. False) None) sample_files
             (default_kwargs\<lparr>kw_ignore_errors := True\<rparr>) ())
      \<noteq> Some (PilotException ''disk full'' 1137 ''COPY_ERROR'')
   \<and> \<not> path_exists (failing_env (\<lambda>p. False) None) ''./file2'' ()
   \<and> fst (copy_in_file (failing_env (\<lambda>p. False) None) (default_kwargs\<lparr>kw_ignore_errors := True\<rparr>)
          (sample_file ''file2'') ((), [])) = None
   \<and> fst (snd (copy_in_file (failing_env (\<lambda>p. False) None)
          (default_kwargs\<lparr>kw_ignore_errors := True\<rparr>) (sample_file ''file2'') ((), [])))
      = (sample_file ''file2'')\<lparr>status_code := 1099, status := ''failed''\<rparr>
   \<and> fst (copy_out (failing_env (\<lambda>p. True) (Some sample_summary)) sample_files
             (default_kwargs\<lparr>kw_ignore_errors := True\<rparr>) ()) = None
   \<and> length (fst (snd (copy_out (failing_env (\<lambda>p. True) (Some sample_summary)) sample_files
             (default_kwargs\<lparr>kw_ignore_errors := True\<rparr>) ()))) = 3
   \<and> length (executed (snd (snd (snd (copy_out (failing_env (\<lambda>p. True) (Some sample_summary))
             sample_files (default_kwargs\<lparr>kw_ignore_errors := True\<rparr>) ()))))) = 3
   \<and> turl_is_str (turl (sample_file ''file1''))
   \<and> json_load (failing_env (\<lambda>p. True) (Some sample_summary)) ''./rucio_upload.json'' ()
      = Some sample_summary
   \<and> summary_readable (sample_file ''file1'') sample_summary
   \<and> fst (copy_out_file (failing_env (\<lambda>p. True) (Some sample_summary)) False True default_kwargs
          (PyBool True) (sample_file ''file1'') ((), [])) = None
   \<and> execute (failing_env (\<lambda>p. True) (Some sample_summary)) (str_join (sample_upload ''file2'')) ()
      = ((1, [], ''Details: disk full''), ())
   \<and> rcode (resolve_transfer_error (codes (failing_env (\<lambda>p. True) (Some sample_summary)))
             ''Details: disk full'' False) = 1137
   \<and> PUTADMISMATCH (codes (failing_env (\<lambda>p. True) (Some sample_summary))) = 1141
   \<and> fst (copy_out_file (failing_env (\<lambda>p. True) (Some sample_summary)) False True default_kwargs
          (PyBool True) (sample_file ''file2'') ((), [])) = None
   \<and> status (fst (snd (copy_out_file (failing_env (\<lambda>p. True) (Some sample_summary)) False True
          default_kwargs (PyBool True) (sample_file ''file2'') ((), [])))) = ''failed''
   \<and> status_code (fst (snd (copy_out_file (failing_env (\<lambda>p. True) (Some sample_summary)) False True
          default_kwargs (PyBool True) (sample_file ''file2'') ((), [])))) \<noteq> 0
   \<and> fst (copy_out_loop (failing_env (\<lambda>p. True) (Some sample_summary)) False True default_kwargs
          (PyBool True) [sample_file ''file1'', sample_file ''file2''] ((), [])) = None
   \<and> map (\<lambda>f. (status_code f, status f))
        (fst (snd (copy_out_loop (failing_env (\<lambda>p. True) (Some sample_summary)) False True
             default_kwargs (PyBool True)
             ([sample_file ''file1'', sample_file ''file2''] @ [sample_file ''file3'']) ((), []))))
      = [(0, ''transferred''), (1137, ''failed''), (0, ''transferred'')]"
  (is "?k \<and> ?a1 \<and> ?a2 \<and> ?a3 \<and> ?a \<and> ?b1 \<and> ?b2 \<and> ?b3 \<and> ?b \<and> ?i \<and> ?c1 \<and> ?c2 \<and> ?c3 \<and> ?c4
       \<and> ?d \<and> ?p1 \<and> ?p2 \<and> ?p3 \<and> ?e3 \<and> ?e4 \<and> ?e5 \<and> ?q1 \<and> ?q2 \<and> ?q3 \<and> ?q4
       \<and> ?g1 \<and> ?g2 \<and> ?g3 \<and> ?g4 \<and> ?g5 \<and> ?g6 \<and> ?h1 \<and> ?h2")
proof -
  let ?E = "failing_env (\<lambda>p. False) None"
  let ?E' = "failing_env (\<lambda>p. True) (Some sample_summary)"
  let ?K = "default_kwargs\<lparr>kw_ignore_errors := True\<rparr>"
  let ?f1 = "sample_file ''file1''" and ?f2 = "sample_file ''file2''"
    and ?f3 = "sample_file ''file3''"
  have k: ?k and i: ?i by (simp_all add: default_kwargs_def)
  have a1: ?a1
    by (simp add: sample_defs copy_in_file_def copy_in_transfer_def copy_in_verify_def
        copy_in_cmd_def work_dir_def os_path_join_def startswith_def emit_def mark_transferred_def
        require_replicas_def direct_def)
  have a2: ?a2 by (simp add: direct_def sample_defs)
  have a3: ?a3 by (simp add: sample_defs startswith_def)
  have cmd: "str_join (copy_in_cmd default_kwargs ?f2) = sample_download ''file2''"
    and cmds: "map (\<lambda>f. str_join (copy_in_cmd ?K f)) (filter (\<lambda>f. \<not> direct ?K f) sample_files)
      = [sample_download ''file1'', sample_download ''file2'', sample_download ''file3'']"
    by (simp_all add: sample_defs copy_in_cmd_def work_dir_def require_replicas_def direct_def)
  have cl: "resolve_transfer_error (codes ?E) ''Details: disk full'' True
      = \<lparr>rcode = 1099, state = ''COPY_ERROR'', error = ''disk full''\<rparr>"
    "resolve_transfer_error (codes ?E) ''Details: disk full'' False
      = \<lparr>rcode = 1137, state = ''COPY_ERROR'', error = ''disk full''\<rparr>"
    by (simp_all add: sample_defs classifier_defs)
  have x: "execute ?E (str_join (copy_in_cmd default_kwargs ?f2)) y
      = ((1, [], ''Details: disk full''), ())" for y
    by (simp add: sample_defs startswith_def copy_in_cmd_def work_dir_def require_replicas_def)
  have one: "(1::int) \<noteq> 0" by simp
  from batch_short_circuit [where env = ?E and kw = default_kwargs and pre = "[?f1]" and s = "((), [])"
      and fspec = ?f2 and post = "[?f3]" and rc = 1 and out = "[]" and err = "''Details: disk full''"
      and w = "()"] k a1 a2 x one
  have a: ?a
    by (simp add: cl cmd sample_files_def del: copy_in_loop.simps)
  have b1: ?b1
    by (simp add: sample_defs copy_out_file_def copy_out_transfer_def copy_out_summary_def
        copy_out_cmd_def work_dir_def os_path_join_def startswith_def emit_def mark_transferred_def)
  have b2: ?b2 by (simp add: sample_defs copy_out_cmd_def)
  have b3: "execute ?E (str_join (sample_upload ''file2'')) y
      = ((1, [], ''Details: disk full''), ())" for y
    by (simp add: sample_defs startswith_def)
  have nf: "\<not> False" by simp
  from batch_short_circuit [where env = ?E and kw = default_kwargs and pre = "[?f1]" and s = "((), [])"
      and fspec = ?f2 and post = "[?f3]" and rc = 1 and out = "[]" and err = "''Details: disk full''"
      and w = "()" and ignore_errors = False and no_register = False and summary = "PyBool True"
      and cmdl = "sample_upload ''file2''"] b1 b2 b3 one
  have b: ?b
    by (simp add: cl sample_files_def del: copy_out_loop.simps)
  note C = batch_short_circuit [where env = ?E and kw = ?K and files = sample_files and ?w0.0 = "()"
      and pre = "[?f1, ?f2]" and post = "[?f3]" and s = "((), [])",
      THEN conjunct2, THEN conjunct2, THEN conjunct1]
  from C i obtain files1 s2 where c: "copy_in ?E sample_files ?K () = (None, files1, s2)"
    "length files1 = length sample_files"
    "executed (snd s2) =
       map (\<lambda>f. str_join (copy_in_cmd ?K f)) (filter (\<lambda>f. \<not> direct ?K f) sample_files)"
    by blast
  from c have c1: ?c1 and c2: ?c2 and c3: ?c3
    by (simp_all add: cmds) (simp add: sample_files_def)
  from C i
  have "copy_in_loop ?E ?K ([?f1, ?f2] @ [?f3]) ((), []) =
      (None,
       fst (snd (copy_in_loop ?E ?K [?f1, ?f2] ((), [])))
         @ fst (snd (copy_in_loop ?E ?K [?f3] (snd (snd (copy_in_loop ?E ?K [?f1, ?f2] ((), [])))))),
       snd (snd (copy_in_loop ?E ?K [?f3] (snd (snd (copy_in_loop ?E ?K [?f1, ?f2] ((), [])))))))"
    by blast
  moreover have "map (\<lambda>f. (status_code f, status f))
       (fst (snd (copy_in_loop ?E ?K [?f1, ?f2] ((), [])))
         @ fst (snd (copy_in_loop ?E ?K [?f3] (snd (snd (copy_in_loop ?E ?K [?f1, ?f2] ((), [])))))))
     = [(0, ''transferred''), (1099, ''failed''), (0, ''transferred'')]"
    by (simp add: sample_defs copy_in_file_def copy_in_transfer_def copy_in_verify_def
        copy_in_cmd_def work_dir_def os_path_join_def startswith_def emit_def mark_transferred_def
        require_replicas_def classifier_defs)
  ultimately have c4: ?c4 by (simp del: copy_in_loop.simps append.simps)
  note D = batch_short_circuit [where env = ?E and kw = ?K and files = sample_files and ?w0.0 = "()",
      THEN conjunct2, THEN conjunct2, THEN conjunct2, THEN conjunct2, THEN conjunct1]
  from D i have d: ?d by blast
  have p1: ?p1 by (simp add: sample_defs)
  have a2': "\<not> direct ?K ?f2" by (simp add: direct_def sample_defs)
  have cmd': "str_join (copy_in_cmd ?K ?f2) = sample_download ''file2''"
    by (simp add: sample_defs copy_in_cmd_def work_dir_def require_replicas_def)
  have x': "execute ?E (str_join (copy_in_cmd ?K ?f2)) (fst ((), [])) = ((1, [], ''Details: disk full''), ())"
    by (simp add: sample_defs startswith_def copy_in_cmd_def work_dir_def require_replicas_def)
  have dest: "os_path_join (work_dir ?K ?f2) (lfn ?f2) = ''./file2''"
    by (simp add: sample_defs work_dir_def os_path_join_def startswith_def)
  note P = batch_short_circuit [where env = ?E and kw = ?K and fspec = ?f2 and s = "((), [])"
      and rc = 1 and out = "[]" and err = "''Details: disk full''" and w = "()",
      THEN conjunct2, THEN conjunct2, THEN conjunct2, THEN conjunct1]
  from P i a2' x' one p1 have p2: ?p2 and p3: ?p3
    by (simp_all add: cl dest)
  have e3: ?e3
    by (simp add: sample_defs copy_out_defs classifier_defs)
  obtain r' files2 s3 where e: "copy_out ?E' sample_files ?K () = (r', files2, s3)"
    by (rule prod_cases3)
  with e3 have e': "copy_out ?E' sample_files ?K () = (None, files2, s3)" by simp
  note L = batch_short_circuit [where env = ?E' and kw = ?K and files = sample_files and ?w0.0 = "()"
      and ?files2.0 = files2 and ?s3.0 = s3,
      THEN conjunct2, THEN conjunct2, THEN conjunct2, THEN conjunct2, THEN conjunct2,
      THEN conjunct1]
  from L i e' have "length files2 = length sample_files"
    and "length (executed (snd s3)) = length sample_files"
    by simp_all
  with e' have e4: ?e4 and e5: ?e5 by (simp_all add: sample_files_def)
  have q1: ?q1 and q2: ?q2 and q3: ?q3
    by (simp_all add: sample_defs)
  have wd: "os_path_join (work_dir default_kwargs ?f1) ''rucio_upload.json'' = ''./rucio_upload.json''"
    by (simp add: sample_defs work_dir_def os_path_join_def startswith_def)
  have jl: "json_load ?E' x y = Some sample_summary" for x y
    by (simp add: failing_env_def sample_env_def)
  note N = batch_short_circuit [where env = ?E' and kw = default_kwargs and fspec = ?f1
      and s = "((), [])" and no_register = False and summary = "PyBool True",
      THEN conjunct2, THEN conjunct2, THEN conjunct2, THEN conjunct2, THEN conjunct2,
      THEN conjunct2, THEN conjunct1]
  from N q1 q3 have q4: ?q4
    by (simp add: jl)
  have g1: ?g1 and g1': "execute ?E' (str_join (sample_upload ''file2'')) (fst ((), []))
      = ((1, [], ''Details: disk full''), ())"
    by (simp_all add: sample_defs startswith_def)
  have g2: ?g2 by (simp add: sample_defs classifier_defs)
  have g3: ?g3 by (simp add: sample_defs)
  have g4: ?g4
    by (simp add: sample_defs copy_out_file_def copy_out_transfer_def copy_out_summary_def
        check_summary_def copy_out_cmd_def work_dir_def os_path_join_def startswith_def emit_def
        mark_transferred_def classifier_defs)
  note S = batch_short_circuit [where env = ?E' and kw = default_kwargs and fspec = ?f2
      and s = "((), [])" and no_register = False and summary = "PyBool True"
      and cmdl = "sample_upload ''file2''" and rc = 1 and out = "[]"
      and err = "''Details: disk full''" and w = "()",
      THEN conjunct2, THEN conjunct2, THEN conjunct2, THEN conjunct2, THEN conjunct2,
      THEN conjunct2, THEN conjunct2, THEN conjunct1]
  from S b2 g1' one g2 g3 g4 have g5: ?g5 and g6: ?g6
    by simp_all
  have h1: ?h1
    by (simp add: sample_defs copy_out_file_def copy_out_transfer_def copy_out_summary_def
        check_summary_def copy_out_cmd_def work_dir_def os_path_join_def startswith_def emit_def
        mark_transferred_def classifier_defs)
  let ?X = "copy_out_loop ?E' False True default_kwargs (PyBool True) [?f1, ?f2] ((), [])"
  from h1 have hx: "?X = (None, fst (snd ?X), fst (snd (snd ?X)), snd (snd (snd ?X)))"
    by (metis prod.collapse)
  note Q = batch_short_circuit [where env = ?E' and kw = default_kwargs and s = "((), [])"
      and no_register = False and summary = "PyBool True" and ignore_errors = True
      and pre = "[?f1, ?f2]" and post = "[?f3]" and ?pre2.0 = "fst (snd ?X)"
      and ?summary1.0 = "fst (snd (snd ?X))" and ?s1.0 = "snd (snd (snd ?X))",
      THEN conjunct2, THEN conjunct2, THEN conjunct2, THEN conjunct2, THEN conjunct2,
      THEN conjunct2, THEN conjunct2, THEN conjunct2]
  from Q hx
  have "copy_out_loop ?E' False True default_kwargs (PyBool True) ([?f1, ?f2] @ [?f3]) ((), []) =
      (fst (copy_out_loop ?E' False True default_kwargs (fst (snd (snd ?X))) [?f3] (snd (snd (snd ?X)))),
       fst (snd ?X)
         @ fst (snd (copy_out_loop ?E' False True default_kwargs (fst (snd (snd ?X))) [?f3]
                       (snd (snd (snd ?X))))),
       snd (snd (copy_out_loop ?E' False True default_kwargs (fst (snd (snd ?X))) [?f3]
                   (snd (snd (snd ?X))))))"
    by blast
  moreover have "map (\<lambda>f. (status_code f, status f))
      (fst (snd ?X)
         @ fst (snd (copy_out_loop ?E' False True default_kwargs (fst (snd (snd ?X))) [?f3]
                       (snd (snd (snd ?X))))))
     = [(0, ''transferred''), (1137, ''failed''), (0, ''transferred'')]"
    by (simp add: sample_defs copy_out_file_def copy_out_transfer_def copy_out_summary_def
        check_summary_def copy_out_cmd_def work_dir_def os_path_join_def startswith_def emit_def
        mark_transferred_def classifier_defs)
  ultimately have h2: ?h2 by (simp del: copy_out_loop.simps append.simps)
  have a3': ?a3 and b3': ?b3 by (simp_all add: sample_defs startswith_def)
  from k a1 a2 a3' a b1 b2 b3' b i c1 c2 c3 c4 d p1 p2 p3 e3 e4 e5 q1 q2 q3 q4
    g1 g2 g3 g4 g5 g6 h1 h2
  show ?thesis by blast
qed

text \<open>
  Claim C4 as stated fails for \<^verbatim>\<open>copy_out\<close> with \<^verbatim>\<open>ignore_errors\<close>. When the
  summary file of the first record does not parse, \<^verbatim>\<open>json.load\<close> raises
  \<^verbatim>\<open>ValueError\<close>, which the module does not catch: the call ends after one command and
  the other two records are not attempted. And the outcome of a record depends on the
  record before it: alone, the second sample record ends with the code 1141 and the tag
  \<^verbatim>\<open>failed\<close>; after a record whose summary file holds the empty object it ends with
  code 0 and the tag \<^verbatim>\<open>transferred\<close>.
\<close>

theorem batch_short_circuit_counterexample:
  "kw_ignore_errors (default_kwargs\<lparr>kw_ignore_errors := True\<rparr>)
   \<and> fst (copy_out (failing_env (\<lambda>p. True) None) sample_files
             (default_kwargs\<lparr>kw_ignore_errors := True\<rparr>) ()) = Some ValueError
   \<and> executed (snd (snd (snd (copy_out (failing_env (\<lambda>p. True) None) sample_files
             (default_kwargs\<lparr>kw_ignore_errors := True\<rparr>) ()))))
      = [str_join (sample_upload ''file1'')]
   \<and> length sample_files = 3
   \<and> map (\<lambda>f. (lfn f, status_code f, status f))
        (fst (snd (copy_out two_summaries_env [first_record, second_record]
                     (default_kwargs\<lparr>kw_ignore_errors := True\<rparr>) ())))
      = [(''file0'', 0, ''transferred''), (''file1'', 0, ''transferred'')]
   \<and> map (\<lambda>f. (lfn f, status_code f, status f))
        (fst (snd (copy_out two_summaries_env [second_record]
                     (default_kwargs\<lparr>kw_ignore_errors := True\<rparr>) ())))
      = [(''file1'', 1141, ''failed'')]"
  by (simp add: sample_defs copy_out_defs classifier_defs)

end
